theory Spec2Isabelle
  imports Complex_Main
begin

section \<open>Python values used by journal.py\<close>

subsection \<open>Strings\<close>

text \<open>
  A Python \<open>str\<close> is a sequence of code points: a \<open>str\<close> of the model is a list of
  natural numbers, and a well-formed one holds numbers up to 0x10FFFF (\<open>is_str\<close>).
  \<open>lit\<close> turns a literal of the source into its code points.
\<close>

type_synonym str = "nat list"

definition lit :: "string \<Rightarrow> str" where
  "lit s = map of_char s"

abbreviation ch :: "char \<Rightarrow> nat" where
  "ch c \<equiv> of_char c"

definition is_str :: "str \<Rightarrow> bool" where
  "is_str s = list_all (\<lambda>c. c < 0x110000) s"

text \<open>
  \<open>str.lower\<close>. On a text whose code points are all below 256 it maps A-Z and the
  upper-case letters of Latin-1 (0xC0-0xDE without the multiplication sign 0xD7) to the
  code point 32 above and leaves the rest. On any other text it is what the Unicode
  tables of the interpreter make of it (it depends on the context of a letter and can
  change the length), which the model takes as given: the function \<open>beyond\<close>.
\<close>

definition is_upper :: "nat \<Rightarrow> bool" where
  "is_upper n = ((65 \<le> n \<and> n \<le> 90) \<or> (192 \<le> n \<and> n \<le> 222 \<and> n \<noteq> 215))"

definition lower_latin1 :: "nat \<Rightarrow> nat" where
  "lower_latin1 n = (if is_upper n then n + 32 else n)"

definition lower :: "(str \<Rightarrow> str) \<Rightarrow> str \<Rightarrow> str" where
  "lower beyond s = (if list_all (\<lambda>c. c < 256) s then map lower_latin1 s else beyond s)"

text \<open>\<open>str.strip\<close> removes, at both ends, the code points for which \<open>str.isspace\<close>
  holds.\<close>

definition is_space :: "nat \<Rightarrow> bool" where
  "is_space n =
     ((9 \<le> n \<and> n \<le> 13) \<or> (28 \<le> n \<and> n \<le> 32) \<or> n = 0x85 \<or> n = 0xA0 \<or> n = 0x1680
      \<or> (0x2000 \<le> n \<and> n \<le> 0x200A) \<or> n = 0x2028 \<or> n = 0x2029 \<or> n = 0x202F
      \<or> n = 0x205F \<or> n = 0x3000)"

definition strip :: "str \<Rightarrow> str" where
  "strip s = rev (dropWhile is_space (rev (dropWhile is_space s)))"

text \<open>The operator \<open>needle in hay\<close> on two texts: a scan for the needle at every
  position of the haystack.\<close>

fun starts_with :: "str \<Rightarrow> str \<Rightarrow> bool" where
  "starts_with [] hay = True"
| "starts_with (n # ns) [] = False"
| "starts_with (n # ns) (h # hs) = (n = h \<and> starts_with ns hs)"

fun str_contains :: "str \<Rightarrow> str \<Rightarrow> bool" where
  "str_contains needle [] = (needle = [])"
| "str_contains needle (h # hs) = (starts_with needle (h # hs) \<or> str_contains needle hs)"

subsection \<open>Exceptions, entries, constants\<close>

datatype exn =
    EOFError
  | KeyError
  | ValueError
  | ZeroDivisionError
  | UnicodeDecodeError
  | JSONDecodeError
  | RecursionError

text \<open>An entry is the dictionary \<open>{"date": ..., "mood": ..., "text": ...}\<close> that
  \<open>add_entry\<close> builds.\<close>

record entry =
  e_date :: str
  e_mood :: str
  e_text :: str

definition VALID_MOODS :: "str list" where
  "VALID_MOODS = [lit ''happy'', lit ''neutral'', lit ''sad'']"

definition MOOD_EMOJI :: "(str \<times> str) list" where
  "MOOD_EMOJI =
     [(lit ''happy'', lit '':)''), (lit ''neutral'', lit '':|''), (lit ''sad'', lit '':('')]"

text \<open>\<open>d[k]\<close> on a dictionary kept as an association list in insertion order.\<close>

definition getitem :: "('k \<times> 'v) list \<Rightarrow> 'k \<Rightarrow> exn + 'v" where
  "getitem d k = (case map_of d k of None \<Rightarrow> Inl KeyError | Some v \<Rightarrow> Inr v)"

text \<open>\<open>d.get(k, default)\<close>.\<close>

definition get_default :: "('k \<times> 'v) list \<Rightarrow> 'k \<Rightarrow> 'v \<Rightarrow> 'v" where
  "get_default d k dflt = (case map_of d k of None \<Rightarrow> dflt | Some v \<Rightarrow> v)"

section \<open>The program state\<close>

text \<open>
  What reading \<open>journal.json\<close> does: the file is not there, \<open>open\<close> raises
  \<open>OSError\<close>, the bytes are not text in the encoding of the locale (\<open>f.read()\<close> raises
  \<open>UnicodeDecodeError\<close>), or the file holds a text.
\<close>

datatype store = Missing | Unreadable | Undecodable | Content str

text \<open>What the program writes to the terminal, one constructor for each \<open>print\<close> and
  each prompt of \<open>input\<close> in the source.\<close>

datatype printed =
    Prompt_Mood
  | Prompt_Text
  | Prompt_Filter
  | Prompt_Keyword
  | Say_NewEntry
  | Say_PleaseEnter
  | Say_EmptyNothingSaved
  | Say_Saved str str str
  | Say_ErrorSaving
  | Say_Corrupted
  | Say_ErrorReading
  | Say_NoEntriesYet
  | Say_NoMoodEntries str
  | Say_MoodHeader str str nat
  | Show_Entry nat entry str
  | Say_NoKeyword
  | Say_NoMatch str
  | Say_SearchHeader str nat
  | Say_SummaryHeader nat
  | Show_Bar str str nat real
  | Say_TopMood str str

text \<open>
  What the program takes from the interpreter it runs on: \<open>str.lower\<close> on the texts
  that hold a code point above 255, how deep the containers of a JSON text may nest
  before \<open>json.load\<close> raises \<open>RecursionError\<close>, and
  \<open>sys.get_int_max_str_digits()\<close>, the number of digits above which the conversion of
  an integer literal raises \<open>ValueError\<close> (0 for no limit).
\<close>

record interpreter =
  lower_beyond_latin1 :: "str \<Rightarrow> str"
  max_depth :: nat
  int_max_str_digits :: nat

text \<open>
  The state the functions of journal.py work on: the list object \<open>entries\<close> they are
  handed, the file, whether the file can be opened for writing, what the clock reads
  (formatted as \<open>%Y-%m-%d %H:%M\<close>), the lines still to come on standard input,
  what has been printed, and the interpreter.
\<close>

record state =
  entries :: "entry list"
  store :: store
  writable :: bool
  clock :: str
  stdin :: "str list"
  stdout :: "printed list"
  py :: interpreter

definition py_print :: "printed \<Rightarrow> state \<Rightarrow> state" where
  "py_print p s = s\<lparr>stdout := stdout s @ [p]\<rparr>"

text \<open>\<open>input(prompt)\<close> prints the prompt and returns the next line, or raises
  \<open>EOFError\<close> when there is none.\<close>

definition py_input :: "printed \<Rightarrow> state \<Rightarrow> (exn + str) \<times> state" where
  "py_input prompt s =
     (case stdin s of
        [] \<Rightarrow> (Inl EOFError, py_print prompt s)
      | l # ls \<Rightarrow> (Inr l, (py_print prompt s)\<lparr>stdin := ls\<rparr>))"

section \<open>Displaying entries\<close>

definition display_entry :: "entry \<Rightarrow> nat \<Rightarrow> state \<Rightarrow> state" where
  "display_entry e index s =
     (let emoji = get_default MOOD_EMOJI (e_mood e) (lit ''?'')
      in py_print (Show_Entry index e emoji) s)"

text \<open>\<open>for i, entry in enumerate(xs, start=i0): display_entry(entry, i)\<close>.\<close>

fun display_from :: "nat \<Rightarrow> entry list \<Rightarrow> state \<Rightarrow> state" where
  "display_from i [] s = s"
| "display_from i (e # es) s = display_from (Suc i) es (display_entry e i s)"

text \<open>The mood prompt of \<open>add_entry\<close> and \<open>view_by_mood\<close>: ask until the answer,
  stripped and lower-cased, is one of \<open>VALID_MOODS\<close>. The loop is a recursion on the
  lines of standard input; it ends with \<open>EOFError\<close> when they run out.\<close>

fun mood_loop ::
  "(str \<Rightarrow> str) \<Rightarrow> printed \<Rightarrow> str list \<Rightarrow> printed list
   \<Rightarrow> (exn + str) \<times> str list \<times> printed list"
where
  "mood_loop beyond prompt [] out = (Inl EOFError, [], out @ [prompt])"
| "mood_loop beyond prompt (l # ls) out =
     (let mood = lower beyond (strip l)
      in if mood \<in> set VALID_MOODS then (Inr mood, ls, out @ [prompt])
         else mood_loop beyond prompt ls (out @ [prompt, Say_PleaseEnter]))"

definition ask_mood :: "printed \<Rightarrow> state \<Rightarrow> (exn + str) \<times> state" where
  "ask_mood prompt s =
     (case mood_loop (lower_beyond_latin1 (py s)) prompt (stdin s) (stdout s) of
        (r, ins, out) \<Rightarrow> (r, s\<lparr>stdin := ins, stdout := out\<rparr>))"

section \<open>view_by_mood\<close>

definition view_by_mood :: "state \<Rightarrow> (exn + unit) \<times> state" where
  "view_by_mood s =
     (if entries s = [] then (Inr (), py_print Say_NoEntriesYet s)
      else
        (case ask_mood Prompt_Filter s of
           (Inl x, s1) \<Rightarrow> (Inl x, s1)
         | (Inr mood, s1) \<Rightarrow>
             (let filtered = filter (\<lambda>e. e_mood e = mood) (entries s1)
              in if filtered = [] then (Inr (), py_print (Say_NoMoodEntries mood) s1)
                 else
                   (case getitem MOOD_EMOJI mood of
                      Inl x \<Rightarrow> (Inl x, s1)
                    | Inr emoji \<Rightarrow>
                        (Inr (),
                         display_from 1 filtered
                           (py_print (Say_MoodHeader mood emoji (length filtered)) s1))))))"

section \<open>search_entries\<close>

definition search_entries :: "state \<Rightarrow> (exn + unit) \<times> state" where
  "search_entries s =
     (if entries s = [] then (Inr (), py_print Say_NoEntriesYet s)
      else
        (case py_input Prompt_Keyword s of
           (Inl x, s1) \<Rightarrow> (Inl x, s1)
         | (Inr l, s1) \<Rightarrow>
             (let keyword = strip l
              in if keyword = [] then (Inr (), py_print Say_NoKeyword s1)
                 else
                   (let keyword_lower = lower (lower_beyond_latin1 (py s1)) keyword;
                        matches =
                          filter (\<lambda>e. str_contains keyword_lower
                                         (lower (lower_beyond_latin1 (py s1)) (e_text e)))
                            (entries s1)
                    in if matches = [] then (Inr (), py_print (Say_NoMatch keyword) s1)
                       else
                         (Inr (),
                          display_from 1 matches
                            (py_print (Say_SearchHeader keyword (length matches)) s1))))))"

section \<open>mood_summary\<close>

text \<open>\<open>counts\<close> is a dictionary: an association list in insertion order, which is the
  order \<open>counts.items()\<close> and \<open>max(counts, ...)\<close> go through.\<close>

type_synonym counts = "(str \<times> nat) list"

definition init_counts :: counts where
  "init_counts = map (\<lambda>mood. (mood, 0)) VALID_MOODS"

text \<open>\<open>counts[mood] += 1\<close> for a key that is there.\<close>

definition incr :: "str \<Rightarrow> counts \<Rightarrow> counts" where
  "incr mood cs = map (\<lambda>(k, v). if k = mood then (k, v + 1) else (k, v)) cs"

fun tally :: "entry list \<Rightarrow> counts \<Rightarrow> counts" where
  "tally [] cs = cs"
| "tally (entry # rest) cs =
     (let mood = e_mood entry
      in if mood \<in> set (map fst cs) then tally rest (incr mood cs) else tally rest cs)"

text \<open>
  Python's floats: \<open>rnd\<close> rounds a real number to the nearest float. \<open>count / tot\<close>
  on two integers is the rounded quotient and raises \<open>ZeroDivisionError\<close> for a zero
  divisor; \<open>q * 100\<close> is the rounded product.
\<close>

definition truediv :: "(real \<Rightarrow> real) \<Rightarrow> nat \<Rightarrow> nat \<Rightarrow> exn + real" where
  "truediv rnd a b = (if b = 0 then Inl ZeroDivisionError else Inr (rnd (real a / real b)))"

definition percent_of :: "(real \<Rightarrow> real) \<Rightarrow> nat \<Rightarrow> nat \<Rightarrow> exn + real" where
  "percent_of rnd count tot =
     (if tot > 0
      then (case truediv rnd count tot of Inl x \<Rightarrow> Inl x | Inr q \<Rightarrow> Inr (rnd (q * 100)))
      else Inr 0)"

text \<open>\<open>for mood, count in counts.items(): ...\<close>.\<close>

fun print_bars :: "(real \<Rightarrow> real) \<Rightarrow> nat \<Rightarrow> counts \<Rightarrow> state \<Rightarrow> (exn + unit) \<times> state" where
  "print_bars rnd tot [] s = (Inr (), s)"
| "print_bars rnd tot ((mood, count) # rest) s =
     (case getitem MOOD_EMOJI mood of
        Inl x \<Rightarrow> (Inl x, s)
      | Inr emoji \<Rightarrow>
          (case percent_of rnd count tot of
             Inl x \<Rightarrow> (Inl x, s)
           | Inr percent \<Rightarrow>
               print_bars rnd tot rest (py_print (Show_Bar mood emoji count percent) s)))"

text \<open>\<open>max(xs, key=f)\<close>: the first element whose key no later element exceeds; a later
  element replaces the best so far only when its key is strictly greater.\<close>

fun max_from :: "('a \<Rightarrow> exn + nat) \<Rightarrow> 'a \<Rightarrow> nat \<Rightarrow> 'a list \<Rightarrow> exn + 'a" where
  "max_from key best bestkey [] = Inr best"
| "max_from key best bestkey (x # xs) =
     (case key x of
        Inl e \<Rightarrow> Inl e
      | Inr k \<Rightarrow> if k > bestkey then max_from key x k xs else max_from key best bestkey xs)"

definition py_max :: "('a \<Rightarrow> exn + nat) \<Rightarrow> 'a list \<Rightarrow> exn + 'a" where
  "py_max key xs =
     (case xs of
        [] \<Rightarrow> Inl ValueError
      | x # rest \<Rightarrow> (case key x of Inl e \<Rightarrow> Inl e | Inr k \<Rightarrow> max_from key x k rest))"

definition top_mood_of :: "counts \<Rightarrow> exn + str" where
  "top_mood_of cs = py_max (\<lambda>m. getitem cs m) (map fst cs)"

definition mood_summary :: "(real \<Rightarrow> real) \<Rightarrow> state \<Rightarrow> (exn + unit) \<times> state" where
  "mood_summary rnd s =
     (if entries s = [] then (Inr (), py_print Say_NoEntriesYet s)
      else
        (let cs = tally (entries s) init_counts;
             tot = length (entries s)
         in case print_bars rnd tot cs (py_print (Say_SummaryHeader tot) s) of
              (Inl x, s1) \<Rightarrow> (Inl x, s1)
            | (Inr ok, s1) \<Rightarrow>
                (case top_mood_of cs of
                   Inl x \<Rightarrow> (Inl x, s1)
                 | Inr top_mood \<Rightarrow>
                     (case getitem MOOD_EMOJI top_mood of
                        Inl x \<Rightarrow> (Inl x, s1)
                      | Inr emoji \<Rightarrow> (Inr (), py_print (Say_TopMood top_mood emoji) s1)))))"

section \<open>The json module\<close>

text \<open>
  \<open>json.dump\<close> and \<open>json.load\<close> belong to Python's library, not to journal.py. They
  are modelled here on the texts of JSON: a value is a \<open>json\<close>, an object keeps its
  members in insertion order as a dictionary does, and a number is kept as its lexeme
  (the value that Python converts it to is not modelled; that the conversion of a long
  integer literal raises \<open>ValueError\<close> is).
\<close>

datatype json =
    JNull
  | JBool bool
  | JNum str
  | JStr str
  | JArr "json list"
  | JObj "(str \<times> json) list"

subsection \<open>Writing: \<open>json.dump(obj, f, indent=2)\<close>\<close>

definition hexdigit :: "nat \<Rightarrow> nat" where
  "hexdigit d = lit ''0123456789abcdef'' ! d"

text \<open>\<open>\uXXXX\<close> with four hexadecimal digits in lower case.\<close>

definition esc_u :: "nat \<Rightarrow> str" where
  "esc_u n =
     [ch (CHR 0x5C), ch (CHR ''u''), hexdigit (n div 4096), hexdigit (n div 256 mod 16),
      hexdigit (n div 16 mod 16), hexdigit (n mod 16)]"

text \<open>
  With \<open>ensure_ascii\<close> (the default) the quote, the backslash and every code point
  outside 0x20-0x7E are escaped; a code point above 0xFFFF is written as the pair of
  its two surrogates.
\<close>

definition esc_char :: "nat \<Rightarrow> str" where
  "esc_char c =
     (if c = ch (CHR 0x22) then [ch (CHR 0x5C), ch (CHR 0x22)]
      else if c = ch (CHR 0x5C) then [ch (CHR 0x5C), ch (CHR 0x5C)]
      else if c = 0x0A then [ch (CHR 0x5C), ch (CHR ''n'')]
      else if c = 0x0D then [ch (CHR 0x5C), ch (CHR ''r'')]
      else if c = 0x09 then [ch (CHR 0x5C), ch (CHR ''t'')]
      else if c = 0x08 then [ch (CHR 0x5C), ch (CHR ''b'')]
      else if c = 0x0C then [ch (CHR 0x5C), ch (CHR ''f'')]
      else if 0x20 \<le> c \<and> c \<le> 0x7E then [c]
      else if c < 0x10000 then esc_u c
      else esc_u (0xD800 + (c - 0x10000) div 1024) @ esc_u (0xDC00 + (c - 0x10000) mod 1024))"

definition dump_str :: "str \<Rightarrow> str" where
  "dump_str s = ch (CHR 0x22) # concat (map esc_char s) @ [ch (CHR 0x22)]"

definition newline_indent :: "nat \<Rightarrow> str" where
  "newline_indent level = 0x0A # replicate (2 * level) (ch (CHR '' ''))"

fun dump :: "nat \<Rightarrow> json \<Rightarrow> str"
  and dump_items :: "nat \<Rightarrow> json list \<Rightarrow> str"
  and dump_members :: "nat \<Rightarrow> (str \<times> json) list \<Rightarrow> str"
where
  "dump level JNull = lit ''null''"
| "dump level (JBool b) = (if b then lit ''true'' else lit ''false'')"
| "dump level (JNum lexeme) = lexeme"
| "dump level (JStr s) = dump_str s"
| "dump level (JArr []) = lit ''[]''"
| "dump level (JArr (v # vs)) =
     lit ''['' @ newline_indent (Suc level) @ dump (Suc level) v @ dump_items (Suc level) vs
       @ newline_indent level @ lit '']''"
| "dump level (JObj []) = lit ''{}''"
| "dump level (JObj ((k, v) # kvs)) =
     lit ''{'' @ newline_indent (Suc level) @ dump_str k @ lit '': '' @ dump (Suc level) v
       @ dump_members (Suc level) kvs @ newline_indent level @ lit ''}''"
| "dump_items level [] = []"
| "dump_items level (v # vs) =
     lit '','' @ newline_indent level @ dump level v @ dump_items level vs"
| "dump_members level [] = []"
| "dump_members level ((k, v) # kvs) =
     lit '','' @ newline_indent level @ dump_str k @ lit '': '' @ dump level v
       @ dump_members level kvs"

definition json_dumps :: "json \<Rightarrow> str" where
  "json_dumps v = dump 0 v"

subsection \<open>Reading: \<open>json.load(f)\<close>\<close>

text \<open>
  The parser reads the text character by character and keeps the containers that are
  still open on a stack. It accepts what \<open>json.loads\<close> accepts: the literals
  (\<open>NaN\<close>, \<open>Infinity\<close> and \<open>-Infinity\<close> among them), numbers, strings without raw
  control characters, arrays and objects, with blanks between the tokens; a key that
  comes twice keeps its first place and its last value. It stops at the first fault:
  \<open>JSONDecodeError\<close> for a text that is not JSON, \<open>RecursionError\<close> for a container
  opened deeper than the interpreter allows, \<open>ValueError\<close> for an integer literal with
  more digits than the interpreter converts.
\<close>

datatype frame = In_Array "json list" | In_Object "(str \<times> json) list" str

datatype numpart = N_Minus | N_Zero | N_Int | N_Dot | N_Frac | N_E | N_ESign | N_Exp

text \<open>
  Inside a string the parser holds the code points read so far and, apart from them, a
  high surrogate that a \<open>u\<close>-escape has just given: it is joined with a low surrogate
  when a \<open>u\<close>-escape for one follows at once, and stands alone otherwise. Inside a
  number it holds the characters read and the longest prefix of them that is a number,
  which is what Python's regular expression matches.
\<close>

datatype phase =
    Want_Value
  | Want_Value_Or_Close
  | Want_Key_Or_Close
  | Want_Key
  | Want_Colon
  | After_Value
  | In_String bool str "nat option"
  | In_Escape bool str "nat option"
  | In_Hex bool str "nat option" nat nat
  | In_Literal json str
  | In_Number numpart str str
  | Finished json
  | Failed exn

type_synonym pstate = "phase \<times> frame list"

definition is_ws :: "nat \<Rightarrow> bool" where
  "is_ws c = (c = 0x20 \<or> c = 0x09 \<or> c = 0x0A \<or> c = 0x0D)"

definition is_digit :: "nat \<Rightarrow> bool" where
  "is_digit c = (48 \<le> c \<and> c \<le> 57)"

definition hexval :: "nat \<Rightarrow> nat option" where
  "hexval c =
     (if 48 \<le> c \<and> c \<le> 57 then Some (c - 48)
      else if 97 \<le> c \<and> c \<le> 102 then Some (c - 87)
      else if 65 \<le> c \<and> c \<le> 70 then Some (c - 55)
      else None)"

definition is_high :: "nat \<Rightarrow> bool" where
  "is_high c = (0xD800 \<le> c \<and> c \<le> 0xDBFF)"

definition is_low :: "nat \<Rightarrow> bool" where
  "is_low c = (0xDC00 \<le> c \<and> c \<le> 0xDFFF)"

definition join_surrogates :: "nat \<Rightarrow> nat \<Rightarrow> nat" where
  "join_surrogates h l = 0x10000 + (h - 0xD800) * 1024 + (l - 0xDC00)"

definition emit :: "nat option \<Rightarrow> str \<Rightarrow> str" where
  "emit pending acc = (case pending of None \<Rightarrow> acc | Some h \<Rightarrow> acc @ [h])"

fun dict_set :: "'k \<Rightarrow> 'v \<Rightarrow> ('k \<times> 'v) list \<Rightarrow> ('k \<times> 'v) list" where
  "dict_set k v [] = [(k, v)]"
| "dict_set k v ((k', v') # kvs) =
     (if k = k' then (k, v) # kvs else (k', v') # dict_set k v kvs)"

text \<open>A value is complete: it is the document, or it goes into the innermost open
  container.\<close>

fun deliver :: "json \<Rightarrow> frame list \<Rightarrow> pstate" where
  "deliver v [] = (Finished v, [])"
| "deliver v (In_Array vs # st) = (After_Value, In_Array (vs @ [v]) # st)"
| "deliver v (In_Object kvs k # st) = (After_Value, In_Object (dict_set k v kvs) k # st)"

fun close_array :: "frame list \<Rightarrow> pstate" where
  "close_array (In_Array vs # st) = deliver (JArr vs) st"
| "close_array st = (Failed JSONDecodeError, [])"

fun close_object :: "frame list \<Rightarrow> pstate" where
  "close_object (In_Object kvs k # st) = deliver (JObj kvs) st"
| "close_object st = (Failed JSONDecodeError, [])"

fun end_string :: "bool \<Rightarrow> str \<Rightarrow> frame list \<Rightarrow> pstate" where
  "end_string False s st = deliver (JStr s) st"
| "end_string True s (In_Object kvs k # st) = (Want_Colon, In_Object kvs s # st)"
| "end_string True s st = (Failed JSONDecodeError, [])"

text \<open>Opening a container deeper than the interpreter allows raises
  \<open>RecursionError\<close>.\<close>

definition open_container :: "interpreter \<Rightarrow> phase \<Rightarrow> frame \<Rightarrow> frame list \<Rightarrow> pstate" where
  "open_container ip ph fr st =
     (if length st < max_depth ip then (ph, fr # st) else (Failed RecursionError, []))"

definition start_value :: "interpreter \<Rightarrow> nat \<Rightarrow> frame list \<Rightarrow> pstate" where
  "start_value ip c st =
     (if c = ch (CHR 0x22) then (In_String False [] None, st)
      else if c = ch (CHR ''['') then open_container ip Want_Value_Or_Close (In_Array []) st
      else if c = ch (CHR ''{'') then open_container ip Want_Key_Or_Close (In_Object [] []) st
      else if c = ch (CHR ''n'') then (In_Literal JNull (lit ''ull''), st)
      else if c = ch (CHR ''t'') then (In_Literal (JBool True) (lit ''rue''), st)
      else if c = ch (CHR ''f'') then (In_Literal (JBool False) (lit ''alse''), st)
      else if c = ch (CHR ''N'') then (In_Literal (JNum (lit ''NaN'')) (lit ''aN''), st)
      else if c = ch (CHR ''I'') then
        (In_Literal (JNum (lit ''Infinity'')) (lit ''nfinity''), st)
      else if c = ch (CHR ''-'') then (In_Number N_Minus [c] [], st)
      else if c = ch (CHR ''0'') then (In_Number N_Zero [c] [c], st)
      else if is_digit c then (In_Number N_Int [c] [c], st)
      else (Failed JSONDecodeError, []))"

text \<open>What may follow a complete value: a comma, the end of the container, blanks.\<close>

fun after_step :: "pstate \<Rightarrow> nat \<Rightarrow> pstate" where
  "after_step (After_Value, st) c =
     (if is_ws c then (After_Value, st)
      else if c = ch (CHR '','') then
        (case st of
           In_Array vs # st' \<Rightarrow> (Want_Value, st)
         | In_Object kvs k # st' \<Rightarrow> (Want_Key, st)
         | [] \<Rightarrow> (Failed JSONDecodeError, []))
      else if c = ch (CHR '']'') then close_array st
      else if c = ch (CHR ''}'') then close_object st
      else (Failed JSONDecodeError, []))"
| "after_step (Finished v, st) c =
     (if is_ws c then (Finished v, st) else (Failed JSONDecodeError, []))"
| "after_step (Failed x, st) c = (Failed x, [])"
| "after_step (ph, st) c = (Failed JSONDecodeError, [])"

text \<open>The number grammar \<open>-?(0|[1-9][0-9]*)(\.[0-9]+)?([eE][-+]?[0-9]+)?\<close>.\<close>

definition num_next :: "numpart \<Rightarrow> nat \<Rightarrow> numpart option" where
  "num_next part c =
     (case part of
        N_Minus \<Rightarrow>
          if c = ch (CHR ''0'') then Some N_Zero else if is_digit c then Some N_Int else None
      | N_Zero \<Rightarrow>
          if c = ch (CHR ''.'') then Some N_Dot
          else if c = ch (CHR ''e'') \<or> c = ch (CHR ''E'') then Some N_E else None
      | N_Int \<Rightarrow>
          if is_digit c then Some N_Int
          else if c = ch (CHR ''.'') then Some N_Dot
          else if c = ch (CHR ''e'') \<or> c = ch (CHR ''E'') then Some N_E else None
      | N_Dot \<Rightarrow> if is_digit c then Some N_Frac else None
      | N_Frac \<Rightarrow>
          if is_digit c then Some N_Frac
          else if c = ch (CHR ''e'') \<or> c = ch (CHR ''E'') then Some N_E else None
      | N_E \<Rightarrow>
          if c = ch (CHR ''+'') \<or> c = ch (CHR ''-'') then Some N_ESign
          else if is_digit c then Some N_Exp else None
      | N_ESign \<Rightarrow> if is_digit c then Some N_Exp else None
      | N_Exp \<Rightarrow> if is_digit c then Some N_Exp else None)"

definition num_complete :: "numpart \<Rightarrow> bool" where
  "num_complete part = (part = N_Zero \<or> part = N_Int \<or> part = N_Frac \<or> part = N_Exp)"

text \<open>
  The matched number is converted with \<open>int\<close> when it has neither fraction nor
  exponent, and \<open>int\<close> raises \<open>ValueError\<close> when it has more digits than
  \<open>sys.get_int_max_str_digits()\<close>, the sign not counted.
\<close>

definition int_too_long :: "interpreter \<Rightarrow> str \<Rightarrow> bool" where
  "int_too_long ip matched =
     (list_all (\<lambda>c. is_digit c \<or> c = ch (CHR ''-'')) matched
      \<and> 0 < int_max_str_digits ip
      \<and> int_max_str_digits ip < length (filter is_digit matched))"

text \<open>
  The end of a number, at the first character that does not continue it or at the end
  of the text: nothing matched is a fault, a match that is too long an integer raises
  \<open>ValueError\<close>, and characters read beyond the match (a dot or an exponent mark that
  no digit follows) are a fault after the number.
\<close>

definition end_number :: "interpreter \<Rightarrow> str \<Rightarrow> str \<Rightarrow> frame list \<Rightarrow> pstate" where
  "end_number ip lexeme matched st =
     (if matched = [] then (Failed JSONDecodeError, [])
      else if int_too_long ip matched then (Failed ValueError, [])
      else if matched \<noteq> lexeme then (Failed JSONDecodeError, [])
      else deliver (JNum matched) st)"

definition unescape :: "nat \<Rightarrow> nat option" where
  "unescape c =
     (if c = ch (CHR 0x22) then Some (ch (CHR 0x22))
      else if c = ch (CHR 0x5C) then Some (ch (CHR 0x5C))
      else if c = ch (CHR ''/'') then Some (ch (CHR ''/''))
      else if c = ch (CHR ''b'') then Some 0x08
      else if c = ch (CHR ''f'') then Some 0x0C
      else if c = ch (CHR ''n'') then Some 0x0A
      else if c = ch (CHR ''r'') then Some 0x0D
      else if c = ch (CHR ''t'') then Some 0x09
      else None)"

text \<open>The code point of a complete \<open>u\<close>-escape arrives in a string.\<close>

definition escaped_unit :: "bool \<Rightarrow> str \<Rightarrow> nat option \<Rightarrow> nat \<Rightarrow> phase" where
  "escaped_unit is_key acc pending v =
     (case pending of
        Some h \<Rightarrow>
          if is_low v then In_String is_key (acc @ [join_surrogates h v]) None
          else if is_high v then In_String is_key (acc @ [h]) (Some v)
          else In_String is_key (acc @ [h, v]) None
      | None \<Rightarrow>
          if is_high v then In_String is_key acc (Some v)
          else In_String is_key (acc @ [v]) None)"

fun step :: "interpreter \<Rightarrow> pstate \<Rightarrow> nat \<Rightarrow> pstate" where
  "step ip (Want_Value, st) c =
     (if is_ws c then (Want_Value, st) else start_value ip c st)"
| "step ip (Want_Value_Or_Close, st) c =
     (if is_ws c then (Want_Value_Or_Close, st)
      else if c = ch (CHR '']'') then close_array st
      else start_value ip c st)"
| "step ip (Want_Key_Or_Close, st) c =
     (if is_ws c then (Want_Key_Or_Close, st)
      else if c = ch (CHR 0x22) then (In_String True [] None, st)
      else if c = ch (CHR ''}'') then close_object st
      else (Failed JSONDecodeError, []))"
| "step ip (Want_Key, st) c =
     (if is_ws c then (Want_Key, st)
      else if c = ch (CHR 0x22) then (In_String True [] None, st)
      else (Failed JSONDecodeError, []))"
| "step ip (Want_Colon, st) c =
     (if is_ws c then (Want_Colon, st)
      else if c = ch (CHR '':'') then (Want_Value, st)
      else (Failed JSONDecodeError, []))"
| "step ip (After_Value, st) c = after_step (After_Value, st) c"
| "step ip (Finished v, st) c = after_step (Finished v, st) c"
| "step ip (In_String is_key acc pending, st) c =
     (if c = ch (CHR 0x22) then end_string is_key (emit pending acc) st
      else if c = ch (CHR 0x5C) then (In_Escape is_key acc pending, st)
      else if c < 0x20 then (Failed JSONDecodeError, [])
      else (In_String is_key (emit pending acc @ [c]) None, st))"
| "step ip (In_Escape is_key acc pending, st) c =
     (if c = ch (CHR ''u'') then (In_Hex is_key acc pending 4 0, st)
      else
        (case unescape c of
           None \<Rightarrow> (Failed JSONDecodeError, [])
         | Some x \<Rightarrow> (In_String is_key (emit pending acc @ [x]) None, st)))"
| "step ip (In_Hex is_key acc pending n v, st) c =
     (case hexval c of
        None \<Rightarrow> (Failed JSONDecodeError, [])
      | Some d \<Rightarrow>
          (let v' = 16 * v + d
           in if n > 1 then (In_Hex is_key acc pending (n - 1) v', st)
              else (escaped_unit is_key acc pending v', st)))"
| "step ip (In_Literal v rest, st) c =
     (case rest of
        [] \<Rightarrow> (Failed JSONDecodeError, [])
      | r # rs \<Rightarrow>
          if c = r then (if rs = [] then deliver v st else (In_Literal v rs, st))
          else (Failed JSONDecodeError, []))"
| "step ip (In_Number part lexeme matched, st) c =
     (case num_next part c of
        Some part' \<Rightarrow>
          (In_Number part' (lexeme @ [c])
             (if num_complete part' then lexeme @ [c] else matched), st)
      | None \<Rightarrow>
          if part = N_Minus \<and> c = ch (CHR ''I'')
          then (In_Literal (JNum (lit ''-Infinity'')) (lit ''nfinity''), st)
          else after_step (end_number ip lexeme matched st) c)"
| "step ip (Failed x, st) c = (Failed x, [])"

text \<open>At the end of the text the document must be complete.\<close>

fun finish :: "interpreter \<Rightarrow> pstate \<Rightarrow> exn + json" where
  "finish ip (Finished v, st) = Inr v"
| "finish ip (In_Number part lexeme matched, st) =
     (case end_number ip lexeme matched st of
        (Finished v, st') \<Rightarrow> Inr v
      | (Failed x, st') \<Rightarrow> Inl x
      | (ph, st') \<Rightarrow> Inl JSONDecodeError)"
| "finish ip (Failed x, st) = Inl x"
| "finish ip (ph, st) = Inl JSONDecodeError"

definition json_loads :: "interpreter \<Rightarrow> str \<Rightarrow> exn + json" where
  "json_loads ip t = finish ip (foldl (step ip) (Want_Value, []) t)"

subsection \<open>Entries as JSON values\<close>

definition entry_json :: "entry \<Rightarrow> json" where
  "entry_json e =
     JObj [(lit ''date'', JStr (e_date e)), (lit ''mood'', JStr (e_mood e)),
           (lit ''text'', JStr (e_text e))]"

definition entries_json :: "entry list \<Rightarrow> json" where
  "entries_json es = JArr (map entry_json es)"

text \<open>The entries a loaded value stands for, when it is a list of dictionaries that
  map \<open>date\<close>, \<open>mood\<close> and \<open>text\<close> to strings.\<close>

definition entry_of :: "json \<Rightarrow> entry option" where
  "entry_of v =
     (case v of
        JObj kvs \<Rightarrow>
          (case (map_of kvs (lit ''date''), map_of kvs (lit ''mood''),
                 map_of kvs (lit ''text'')) of
             (Some (JStr d), Some (JStr m), Some (JStr t)) \<Rightarrow>
               Some \<lparr>e_date = d, e_mood = m, e_text = t\<rparr>
           | _ \<Rightarrow> None)
      | _ \<Rightarrow> None)"

fun all_some :: "'a option list \<Rightarrow> 'a list option" where
  "all_some [] = Some []"
| "all_some (None # xs) = None"
| "all_some (Some x # xs) = (case all_some xs of None \<Rightarrow> None | Some ys \<Rightarrow> Some (x # ys))"

definition entries_of :: "json \<Rightarrow> entry list option" where
  "entries_of v = (case v of JArr vs \<Rightarrow> all_some (map entry_of vs) | _ \<Rightarrow> None)"

text \<open>
  \<open>json.load\<close> joins a high surrogate and a low surrogate that follow each other in
  the file into one code point, so a string that holds such a pair as two code points
  does not come back as it was. No text has one: the code points of a Unicode text are
  not surrogates.
\<close>

fun no_split_pair :: "str \<Rightarrow> bool" where
  "no_split_pair (a # b # cs) = (\<not> (is_high a \<and> is_low b) \<and> no_split_pair (b # cs))"
| "no_split_pair cs = True"

definition savable :: "str \<Rightarrow> bool" where
  "savable s = (is_str s \<and> no_split_pair s)"

definition savable_entry :: "entry \<Rightarrow> bool" where
  "savable_entry e = (savable (e_date e) \<and> savable (e_mood e) \<and> savable (e_text e))"

definition is_text :: "str \<Rightarrow> bool" where
  "is_text s = list_all (\<lambda>c. c < 0x110000 \<and> \<not> is_high c \<and> \<not> is_low c) s"

section \<open>load_entries, save_entries, add_entry\<close>

text \<open>Of the exceptions of \<open>json.load\<close> the handlers catch \<open>json.JSONDecodeError\<close>;
  the others leave \<open>load_entries\<close>.\<close>

definition load_entries :: "state \<Rightarrow> (exn + json) \<times> state" where
  "load_entries s =
     (case store s of
        Missing \<Rightarrow> (Inr (JArr []), s)
      | Unreadable \<Rightarrow> (Inr (JArr []), py_print Say_ErrorReading s)
      | Undecodable \<Rightarrow> (Inl UnicodeDecodeError, s)
      | Content t \<Rightarrow>
          (case json_loads (py s) t of
             Inr v \<Rightarrow> (Inr v, s)
           | Inl JSONDecodeError \<Rightarrow> (Inr (JArr []), py_print Say_Corrupted s)
           | Inl x \<Rightarrow> (Inl x, s)))"

text \<open>\<open>open(JOURNAL_FILE, "w")\<close> replaces the whole file; when it raises \<open>OSError\<close>
  the file stays as it was.\<close>

definition save_entries :: "state \<Rightarrow> bool \<times> state" where
  "save_entries s =
     (if writable s
      then (True, s\<lparr>store := Content (json_dumps (entries_json (entries s)))\<rparr>)
      else (False, py_print Say_ErrorSaving s))"

definition add_entry :: "state \<Rightarrow> (exn + entry list) \<times> state" where
  "add_entry s0 =
     (let s = py_print Say_NewEntry s0;
          date = clock s
      in case ask_mood Prompt_Mood s of
           (Inl x, s1) \<Rightarrow> (Inl x, s1)
         | (Inr mood, s1) \<Rightarrow>
             (case py_input Prompt_Text s1 of
                (Inl x, s2) \<Rightarrow> (Inl x, s2)
              | (Inr l, s2) \<Rightarrow>
                  (let body = strip l
                   in if body = [] then (Inr (entries s2), py_print Say_EmptyNothingSaved s2)
                      else
                        (let entry = \<lparr>e_date = date, e_mood = mood, e_text = body\<rparr>;
                             s3 = s2\<lparr>entries := entries s2 @ [entry]\<rparr>
                         in case save_entries s3 of
                              (True, s4) \<Rightarrow>
                                (case getitem MOOD_EMOJI mood of
                                   Inl x \<Rightarrow> (Inl x, s4)
                                 | Inr emoji \<Rightarrow>
                                     (Inr (entries s4), py_print (Say_Saved date mood emoji) s4))
                            | (False, s4) \<Rightarrow> (Inr (entries s4), s4)))))"

section \<open>Reading the terminal and example states\<close>

text \<open>The entries a run has displayed, with the index each was displayed under.\<close>

fun shown :: "printed list \<Rightarrow> (nat \<times> entry) list" where
  "shown [] = []"
| "shown (Show_Entry i e emoji # ps) = (i, e) # shown ps"
| "shown (p # ps) = shown ps"

text \<open>The bars of the mood summary (mood, count, percentage), the moods with their
  counts alone, the totals of the summary headers, and the moods reported as most
  frequent.\<close>

fun bars :: "printed list \<Rightarrow> (str \<times> nat \<times> real) list" where
  "bars [] = []"
| "bars (Show_Bar m emoji c p # ps) = (m, c, p) # bars ps"
| "bars (p # ps) = bars ps"

fun tops :: "printed list \<Rightarrow> str list" where
  "tops [] = []"
| "tops (Say_TopMood m emoji # ps) = m # tops ps"
| "tops (p # ps) = tops ps"

fun totals :: "printed list \<Rightarrow> nat list" where
  "totals [] = []"
| "totals (Say_SummaryHeader n # ps) = n # totals ps"
| "totals (p # ps) = totals ps"

definition bar_tally :: "printed list \<Rightarrow> (str \<times> nat) list" where
  "bar_tally ps = map (\<lambda>(m, c, p). (m, c)) (bars ps)"

text \<open>The number of entries of a mood, and the first maximum among the three counts in
  the order happy, neutral, sad: closed forms that the lemmas below relate to \<open>tally\<close>
  and to \<open>top_mood_of\<close>.\<close>

definition count_mood :: "str \<Rightarrow> entry list \<Rightarrow> nat" where
  "count_mood m es = length (filter (\<lambda>e. e_mood e = m) es)"

definition first_max :: "nat \<Rightarrow> nat \<Rightarrow> nat \<Rightarrow> str" where
  "first_max h n d =
     (if n > h then (if d > n then lit ''sad'' else lit ''neutral'')
      else if d > h then lit ''sad'' else lit ''happy'')"

definition example_entry :: "string \<Rightarrow> string \<Rightarrow> entry" where
  "example_entry m t = \<lparr>e_date = lit ''2024-05-01 09:30'', e_mood = lit m, e_text = lit t\<rparr>"

definition example_python :: interpreter where
  "example_python = \<lparr>lower_beyond_latin1 = id, max_depth = 900, int_max_str_digits = 4300\<rparr>"

definition example_state :: "entry list \<Rightarrow> string list \<Rightarrow> state" where
  "example_state es ins =
     \<lparr>entries = es, store = Missing, writable = True, clock = lit ''2024-05-02 18:00'',
      stdin = map lit ins, stdout = [], py = example_python\<rparr>"

section \<open>What the helpers print and leave alone\<close>

lemmas string_ops = lit_def lower_def lower_latin1_def is_upper_def strip_def is_space_def

lemma lit_eq_iff [simp]: "lit a = lit b \<longleftrightarrow> a = b"
proof -
  have "inj (of_char :: char \<Rightarrow> nat)"
    by (simp add: inj_def)
  then show ?thesis
    by (simp add: lit_def inj_map_eq_map)
qed

lemma lit_empty_iff [simp]: "lit a = [] \<longleftrightarrow> a = []"
  by (simp add: lit_def)

lemma shown_append: "shown (ps @ qs) = shown ps @ shown qs"
  by (induction ps rule: shown.induct) simp_all

lemma stdout_py_print: "stdout (py_print p s) = stdout s @ [p]"
  by (simp add: py_print_def)

lemma frame_py_print:
  "entries (py_print p s) = entries s" "store (py_print p s) = store s"
  "writable (py_print p s) = writable s" "clock (py_print p s) = clock s"
  "stdin (py_print p s) = stdin s" "py (py_print p s) = py s"
  by (simp_all add: py_print_def)

lemma frame_display_entry:
  "entries (display_entry e i s) = entries s" "store (display_entry e i s) = store s"
  "writable (display_entry e i s) = writable s" "clock (display_entry e i s) = clock s"
  "stdin (display_entry e i s) = stdin s" "py (display_entry e i s) = py s"
  by (simp_all add: display_entry_def frame_py_print)

lemma frame_display_from:
  "entries (display_from i es s) = entries s \<and> store (display_from i es s) = store s
   \<and> writable (display_from i es s) = writable s \<and> clock (display_from i es s) = clock s
   \<and> stdin (display_from i es s) = stdin s \<and> py (display_from i es s) = py s"
  by (induction i es s rule: display_from.induct) (simp_all add: frame_display_entry)

lemma shown_display_from:
  "shown (stdout (display_from i es s)) = shown (stdout s) @ enumerate i es"
  by (induction i es s rule: display_from.induct)
     (simp_all add: display_entry_def stdout_py_print shown_append)

lemma mood_loop_shown:
  "mood_loop f p ins out = (r, ins', out') \<Longrightarrow> p \<in> {Prompt_Mood, Prompt_Filter} \<Longrightarrow>
   shown out' = shown out"
  by (induction f p ins out rule: mood_loop.induct)
     (auto simp: shown_append Let_def split: if_splits)

lemma mood_loop_valid:
  "mood_loop f p ins out = (Inr m, ins', out') \<Longrightarrow> m \<in> set VALID_MOODS"
  by (induction f p ins out rule: mood_loop.induct) (auto simp: Let_def split: if_splits)

lemma frame_ask_mood:
  "entries (snd (ask_mood p s)) = entries s \<and> store (snd (ask_mood p s)) = store s
   \<and> writable (snd (ask_mood p s)) = writable s \<and> clock (snd (ask_mood p s)) = clock s
   \<and> py (snd (ask_mood p s)) = py s"
  by (simp add: ask_mood_def split: prod.splits)

lemma ask_mood_shown:
  "p \<in> {Prompt_Mood, Prompt_Filter} \<Longrightarrow> shown (stdout (snd (ask_mood p s))) = shown (stdout s)"
  by (auto simp: ask_mood_def split: prod.splits dest: mood_loop_shown)

lemma ask_mood_valid: "fst (ask_mood p s) = Inr m \<Longrightarrow> m \<in> set VALID_MOODS"
  by (auto simp: ask_mood_def split: prod.splits dest: mood_loop_valid)

lemma emoji_valid: "m \<in> set VALID_MOODS \<Longrightarrow> \<exists>emoji. getitem MOOD_EMOJI m = Inr emoji"
  by (auto simp: VALID_MOODS_def MOOD_EMOJI_def getitem_def)

section \<open>Filtering by mood\<close>

text \<open>
  C7. Once a mood \<open>m\<close> of the fixed set has been chosen at the prompt,
  \<open>view_by_mood\<close> displays exactly the entries whose mood is \<open>m\<close>, in their original
  order, numbered from 1. With no entries at all, or with no entry of that mood, it
  displays no entry and returns without an exception.
\<close>

theorem view_by_mood_filters:
  assumes "entries s = [] \<or> fst (ask_mood Prompt_Filter s) = Inr m"
  shows "fst (view_by_mood s) = Inr () \<and>
         shown (stdout (snd (view_by_mood s))) =
           shown (stdout s) @ enumerate 1 (filter (\<lambda>e. e_mood e = m) (entries s))"
proof (cases "entries s = []")
  case True
  then show ?thesis
    by (simp add: view_by_mood_def stdout_py_print shown_append)
next
  case False
  with assms have ask: "fst (ask_mood Prompt_Filter s) = Inr m" by simp
  obtain s1 where s1: "ask_mood Prompt_Filter s = (Inr m, s1)"
    using ask by (cases "ask_mood Prompt_Filter s") simp
  have fr: "entries s1 = entries s"
    using frame_ask_mood [of Prompt_Filter s] s1 by simp
  have sh: "shown (stdout s1) = shown (stdout s)"
    using ask_mood_shown [of Prompt_Filter s] s1 by simp
  obtain emoji where em: "getitem MOOD_EMOJI m = Inr emoji"
    using emoji_valid ask_mood_valid [OF ask] by blast
  show ?thesis
    using False
    by (simp add: view_by_mood_def s1 fr sh em Let_def stdout_py_print shown_append
        shown_display_from)
qed


theorem view_by_mood_filters_witness:
  "fst (ask_mood Prompt_Filter
          (example_state
             [example_entry ''happy'' ''one'', example_entry ''sad'' ''two'',
              example_entry ''happy'' ''three'', example_entry ''neutral'' ''four'',
              example_entry ''happy'' ''five'']
             ['' Happy''])) = Inr (lit ''happy'')
   \<and> shown (stdout (snd (view_by_mood
          (example_state
             [example_entry ''happy'' ''one'', example_entry ''sad'' ''two'',
              example_entry ''happy'' ''three'', example_entry ''neutral'' ''four'',
              example_entry ''happy'' ''five'']
             ['' Happy''])))) =
       [(1, example_entry ''happy'' ''one''), (2, example_entry ''happy'' ''three''),
        (3, example_entry ''happy'' ''five'')]"
proof -
  let ?s = "example_state
             [example_entry ''happy'' ''one'', example_entry ''sad'' ''two'',
              example_entry ''happy'' ''three'', example_entry ''neutral'' ''four'',
              example_entry ''happy'' ''five'']
             ['' Happy'']"
  have h: "fst (ask_mood Prompt_Filter ?s) = Inr (lit ''happy'')"
    by (simp add: ask_mood_def example_state_def string_ops VALID_MOODS_def)
  from view_by_mood_filters [of ?s "lit ''happy''"] h
  have "shown (stdout (snd (view_by_mood ?s))) =
          shown (stdout ?s) @ enumerate 1 (filter (\<lambda>e. e_mood e = (lit ''happy'')) (entries ?s))"
    by simp
  then show ?thesis
    using h by (simp add: example_state_def example_entry_def enumerate_eq_zip upt_rec)
qed

section \<open>Searching by keyword\<close>





section \<open>The read-only operations\<close>

lemma frame_py_input:
  "entries (snd (py_input p s)) = entries s \<and> store (snd (py_input p s)) = store s
   \<and> writable (snd (py_input p s)) = writable s \<and> clock (snd (py_input p s)) = clock s"
  by (simp add: py_input_def frame_py_print split: list.splits)

lemma frame_print_bars:
  "entries (snd (print_bars rnd n cs s)) = entries s \<and> store (snd (print_bars rnd n cs s)) = store s
   \<and> writable (snd (print_bars rnd n cs s)) = writable s
   \<and> clock (snd (print_bars rnd n cs s)) = clock s
   \<and> stdin (snd (print_bars rnd n cs s)) = stdin s"
  by (induction rnd n cs s rule: print_bars.induct)
     (simp_all add: frame_py_print split: sum.splits)

lemma frame_view_by_mood:
  "entries (snd (view_by_mood s)) = entries s \<and> store (snd (view_by_mood s)) = store s"
  using frame_ask_mood [of Prompt_Filter s]
  by (auto simp: view_by_mood_def Let_def frame_py_print frame_display_from
      split: prod.splits sum.splits)

lemma frame_search_entries:
  "entries (snd (search_entries s)) = entries s \<and> store (snd (search_entries s)) = store s"
  using frame_py_input [of Prompt_Keyword s]
  by (auto simp: search_entries_def Let_def frame_py_print frame_display_from
      split: prod.splits sum.splits)

lemma frame_mood_summary:
  "entries (snd (mood_summary rnd s)) = entries s \<and> store (snd (mood_summary rnd s)) = store s"
  using frame_print_bars [of rnd "length (entries s)" "tally (entries s) init_counts"
      "py_print (Say_SummaryHeader (length (entries s))) s"]
  by (auto simp: mood_summary_def Let_def frame_py_print split: prod.splits sum.splits)

text \<open>
  C9. \<open>view_by_mood\<close>, \<open>search_entries\<close> and \<open>mood_summary\<close> leave the list of
  entries as it was, element for element and in the same order, whatever they read and
  print and whether they return or raise; they leave the file alone as well.
\<close>

theorem queries_leave_entries_unchanged:
  "entries (snd (view_by_mood s)) = entries s \<and> store (snd (view_by_mood s)) = store s
   \<and> entries (snd (search_entries s)) = entries s \<and> store (snd (search_entries s)) = store s
   \<and> entries (snd (mood_summary rnd s)) = entries s
   \<and> store (snd (mood_summary rnd s)) = store s"
  by (simp add: frame_view_by_mood frame_search_entries frame_mood_summary)

theorem queries_leave_entries_unchanged_witness:
  "entries (snd (view_by_mood (example_state
       [example_entry ''happy'' ''one'', example_entry ''sad'' ''two''] [''sad'']))) =
     [example_entry ''happy'' ''one'', example_entry ''sad'' ''two'']
   \<and> entries (snd (search_entries (example_state
       [example_entry ''happy'' ''one'', example_entry ''sad'' ''two''] [''one'']))) =
     [example_entry ''happy'' ''one'', example_entry ''sad'' ''two'']
   \<and> entries (snd (mood_summary id (example_state
       [example_entry ''happy'' ''one'', example_entry ''sad'' ''two''] []))) =
     [example_entry ''happy'' ''one'', example_entry ''sad'' ''two'']"
  using queries_leave_entries_unchanged
    [of "example_state [example_entry ''happy'' ''one'', example_entry ''sad'' ''two''] [''sad'']"]
    queries_leave_entries_unchanged
    [of "example_state [example_entry ''happy'' ''one'', example_entry ''sad'' ''two''] [''one'']"]
    queries_leave_entries_unchanged
    [of "example_state [example_entry ''happy'' ''one'', example_entry ''sad'' ''two''] []" id]
  by (simp add: example_state_def)

section \<open>Adding an entry with an empty text\<close>

text \<open>
  C3. Whatever the entries, the clock and the mood chosen at the prompt: when the line
  typed as the text is empty once stripped, \<open>add_entry\<close> returns the list of entries it
  was handed, unchanged, prints the message that nothing was saved after the prompt for
  the text and nothing else, and leaves the file as it was.
\<close>

theorem add_entry_empty_text:
  assumes "ask_mood Prompt_Mood (py_print Say_NewEntry s) = (Inr m, s1)"
    and "stdin s1 = l # ls"
    and "strip l = []"
  shows "fst (add_entry s) = Inr (entries s)
         \<and> entries (snd (add_entry s)) = entries s
         \<and> store (snd (add_entry s)) = store s
         \<and> stdout (snd (add_entry s)) = stdout s1 @ [Prompt_Text, Say_EmptyNothingSaved]"
proof -
  have fr: "entries s1 = entries s" "store s1 = store s"
    using frame_ask_mood [of Prompt_Mood "py_print Say_NewEntry s"] assms(1)
    by (simp_all add: frame_py_print)
  show ?thesis
    using assms(2,3)
    by (simp add: add_entry_def Let_def assms(1) py_input_def fr frame_py_print
        stdout_py_print)
qed

theorem add_entry_empty_text_witness:
  "strip (lit ''   '') = []
   \<and> fst (add_entry (example_state [example_entry ''happy'' ''one''] [''glad'', ''Sad'', ''   '']))
       = Inr [example_entry ''happy'' ''one'']
   \<and> store (snd (add_entry
        (example_state [example_entry ''happy'' ''one''] [''glad'', ''Sad'', ''   '']))) = Missing
   \<and> stdout (snd (add_entry
        (example_state [example_entry ''happy'' ''one''] [''glad'', ''Sad'', ''   '']))) =
       [Say_NewEntry, Prompt_Mood, Say_PleaseEnter, Prompt_Mood, Prompt_Text,
        Say_EmptyNothingSaved]"
proof -
  let ?s = "example_state [example_entry ''happy'' ''one''] [''glad'', ''Sad'', ''   '']"
  let ?s1 = "snd (ask_mood Prompt_Mood (py_print Say_NewEntry ?s))"
  have h1: "ask_mood Prompt_Mood (py_print Say_NewEntry ?s) = (Inr (lit ''sad''), ?s1)"
    by (simp add: ask_mood_def py_print_def example_state_def string_ops VALID_MOODS_def)
  have h2: "stdin ?s1 = (lit ''   '') # []"
    by (simp add: ask_mood_def py_print_def example_state_def string_ops VALID_MOODS_def)
  have h3: "strip (lit ''   '') = []"
    by (simp add: string_ops)
  have out: "stdout ?s1 = [Say_NewEntry, Prompt_Mood, Say_PleaseEnter, Prompt_Mood]"
    by (simp add: ask_mood_def py_print_def example_state_def string_ops VALID_MOODS_def)
  from add_entry_empty_text [OF h1 h2 h3]
  show ?thesis
    using h3 out by (simp add: example_state_def)
qed

section \<open>The mood summary\<close>

lemma bars_append: "bars (ps @ qs) = bars ps @ bars qs"
  by (induction ps rule: bars.induct) simp_all

lemma tops_append: "tops (ps @ qs) = tops ps @ tops qs"
  by (induction ps rule: tops.induct) simp_all

lemma totals_append: "totals (ps @ qs) = totals ps @ totals qs"
  by (induction ps rule: totals.induct) simp_all

lemma tally_closed:
  "tally es cs = map (\<lambda>(k, v). (k, v + count_mood k es)) cs"
proof (induction es arbitrary: cs)
  case Nil
  then show ?case by (simp add: count_mood_def)
next
  case (Cons e es)
  show ?case
  proof (cases "e_mood e \<in> set (map fst cs)")
    case True
    then show ?thesis
      by (simp add: Cons.IH incr_def count_mood_def case_prod_unfold)
  next
    case False
    then have "\<And>k v. (k, v) \<in> set cs \<Longrightarrow> e_mood e \<noteq> k" by force
    with False show ?thesis
      by (auto simp add: Cons.IH count_mood_def)
  qed
qed

lemma tally_init:
  "tally es init_counts =
     [(lit ''happy'', count_mood (lit ''happy'') es), (lit ''neutral'', count_mood (lit ''neutral'') es),
      (lit ''sad'', count_mood (lit ''sad'') es)]"
  by (simp add: tally_closed init_counts_def VALID_MOODS_def)

lemma percent_of_total:
  "percent_of rnd c n = Inr (if n > 0 then rnd (rnd (real c / real n) * 100) else 0)"
  by (simp add: percent_of_def truediv_def)

lemma top_mood_of_three:
  "top_mood_of [(lit ''happy'', h), (lit ''neutral'', n), (lit ''sad'', d)] = Inr (first_max h n d)"
  by (simp add: top_mood_of_def py_max_def getitem_def first_max_def)

lemma emoji_first_max:
  "getitem MOOD_EMOJI (first_max h n d) =
     Inr (if first_max h n d = (lit ''happy'') then (lit '':)'')
          else if first_max h n d = (lit ''neutral'') then (lit '':|'') else (lit '':(''))"
  by (simp add: first_max_def getitem_def MOOD_EMOJI_def)

lemma mood_summary_explicit:
  assumes "entries s \<noteq> []"
  shows "mood_summary rnd s =
     (Inr (),
      s\<lparr>stdout := stdout s @
         [Say_SummaryHeader (length (entries s)),
          Show_Bar (lit ''happy'') (lit '':)'') (count_mood (lit ''happy'') (entries s))
            (rnd (rnd (real (count_mood (lit ''happy'') (entries s)) / real (length (entries s))) * 100)),
          Show_Bar (lit ''neutral'') (lit '':|'') (count_mood (lit ''neutral'') (entries s))
            (rnd (rnd (real (count_mood (lit ''neutral'') (entries s)) / real (length (entries s))) * 100)),
          Show_Bar (lit ''sad'') (lit '':('') (count_mood (lit ''sad'') (entries s))
            (rnd (rnd (real (count_mood (lit ''sad'') (entries s)) / real (length (entries s))) * 100)),
          Say_TopMood
            (first_max (count_mood (lit ''happy'') (entries s)) (count_mood (lit ''neutral'') (entries s))
               (count_mood (lit ''sad'') (entries s)))
            (if first_max (count_mood (lit ''happy'') (entries s)) (count_mood (lit ''neutral'') (entries s))
               (count_mood (lit ''sad'') (entries s)) = (lit ''happy'') then (lit '':)'')
             else if first_max (count_mood (lit ''happy'') (entries s)) (count_mood (lit ''neutral'') (entries s))
               (count_mood (lit ''sad'') (entries s)) = (lit ''neutral'') then (lit '':|'') else (lit '':(''))]\<rparr>)"
  using assms
  apply (simp add: mood_summary_def tally_init percent_of_total top_mood_of_three emoji_first_max
      getitem_def MOOD_EMOJI_def py_print_def Let_def)
  apply (simp add: first_max_def)
  done


lemma count_mood_le: "count_mood m es \<le> length es"
  by (simp add: count_mood_def)

lemma count_mood_valid_sum:
  "\<forall>e \<in> set es. e_mood e \<in> set VALID_MOODS \<Longrightarrow>
   count_mood (lit ''happy'') es + count_mood (lit ''neutral'') es + count_mood (lit ''sad'') es = length es"
  by (induction es) (auto simp: count_mood_def VALID_MOODS_def)

lemma count_mood_foreign:
  "m \<in> set VALID_MOODS \<Longrightarrow> e_mood e \<notin> set VALID_MOODS \<Longrightarrow>
   count_mood m (xs @ e # ys) = count_mood m (xs @ ys)"
  by (auto simp: count_mood_def)

lemma mood_summary_empty:
  "entries s = [] \<Longrightarrow> mood_summary rnd s = (Inr (), py_print Say_NoEntriesYet s)"
  by (simp add: mood_summary_def)

text \<open>
  C2, as amended. For every collection whose entries all carry a mood of the fixed set,
  the counts of the tally add up to the number of entries, and so do the counts on the
  bars that \<open>mood_summary\<close> prints (it prints none for the empty collection).
\<close>

theorem tally_sums_to_total:
  assumes "\<forall>e \<in> set (entries s). e_mood e \<in> set VALID_MOODS"
  shows "sum_list (map snd (tally (entries s) init_counts)) = length (entries s)
         \<and> (\<exists>nb. bar_tally (stdout (snd (mood_summary rnd s))) = bar_tally (stdout s) @ nb
                \<and> sum_list (map snd nb) = length (entries s))"
proof (cases "entries s = []")
  case True
  then show ?thesis
    by (simp add: mood_summary_empty tally_init count_mood_def bar_tally_def bars_append
        py_print_def)
next
  case False
  have sum: "count_mood (lit ''happy'') (entries s) + count_mood (lit ''neutral'') (entries s)
             + count_mood (lit ''sad'') (entries s) = length (entries s)"
    using assms by (rule count_mood_valid_sum)
  show ?thesis
    using sum by (simp add: mood_summary_explicit [OF False] tally_init bar_tally_def bars_append)
qed

theorem tally_sums_to_total_witness:
  "sum_list (map snd (bar_tally (stdout (snd (mood_summary id
      (example_state [example_entry ''happy'' ''First day'', example_entry ''sad'' ''Rough day'']
         [])))))) = 2"
proof -
  let ?s = "example_state
              [example_entry ''happy'' ''First day'', example_entry ''sad'' ''Rough day''] []"
  have h: "\<forall>e \<in> set (entries ?s). e_mood e \<in> set VALID_MOODS"
    by (simp add: example_state_def example_entry_def VALID_MOODS_def)
  from tally_sums_to_total [OF h, of id]
  obtain nb where "bar_tally (stdout (snd (mood_summary id ?s))) = bar_tally (stdout ?s) @ nb"
    and "sum_list (map snd nb) = length (entries ?s)"
    by blast
  then show ?thesis
    by (simp add: example_state_def bar_tally_def)
qed

text \<open>The claim as stated, for every collection, fails on a collection with one entry
  whose mood is not in the fixed set, as a journal file edited by hand can hold: the
  counts add up to 0 and the collection has one entry.\<close>

theorem tally_sum_counterexample:
  "sum_list (map snd (bar_tally (stdout (snd (mood_summary id
      (example_state [example_entry ''angry'' ''Stuck in traffic''] []))))))
   \<noteq> length (entries (example_state [example_entry ''angry'' ''Stuck in traffic''] []))"
  by (simp add: mood_summary_explicit example_state_def example_entry_def bar_tally_def
      count_mood_def)

text \<open>
  C10. An entry whose mood is outside the fixed set counts in the total that
  \<open>mood_summary\<close> prints and in none of the counts: the header shows the number of all
  entries, and the bars show the tally of the collection without that entry.
\<close>

theorem foreign_mood_only_in_total:
  assumes "e_mood e \<notin> set VALID_MOODS" and "entries s = xs @ e # ys"
  shows "totals (stdout (snd (mood_summary rnd s))) = totals (stdout s) @ [Suc (length (xs @ ys))]
         \<and> bar_tally (stdout (snd (mood_summary rnd s))) =
             bar_tally (stdout s) @ tally (xs @ ys) init_counts"
proof -
  have ne: "entries s \<noteq> []" using assms(2) by simp
  show ?thesis
    using assms(1)
    by (simp add: mood_summary_explicit [OF ne] assms(2) tally_init bar_tally_def bars_append
        totals_append count_mood_foreign VALID_MOODS_def)
qed

theorem foreign_mood_only_in_total_witness:
  "e_mood (example_entry ''angry'' ''Stuck in traffic'') \<notin> set VALID_MOODS
   \<and> totals (stdout (snd (mood_summary id
        (example_state [example_entry ''happy'' ''First day'',
                        example_entry ''angry'' ''Stuck in traffic''] [])))) = [2]
   \<and> bar_tally (stdout (snd (mood_summary id
        (example_state [example_entry ''happy'' ''First day'',
                        example_entry ''angry'' ''Stuck in traffic''] [])))) =
       [(lit ''happy'', 1), (lit ''neutral'', 0), (lit ''sad'', 0)]"
proof -
  let ?e = "example_entry ''angry'' ''Stuck in traffic''"
  let ?s = "example_state [example_entry ''happy'' ''First day'', ?e] []"
  have h1: "e_mood ?e \<notin> set VALID_MOODS"
    by (simp add: example_entry_def VALID_MOODS_def)
  have h2: "entries ?s = [example_entry ''happy'' ''First day''] @ ?e # []"
    by (simp add: example_state_def)
  from foreign_mood_only_in_total [OF h1 h2, of id]
  show ?thesis
    using h1
    by (simp add: example_state_def example_entry_def tally_init count_mood_def bar_tally_def)
qed

text \<open>
  C5. The tally lists the moods in the order of \<open>VALID_MOODS\<close> (happy, neutral, sad).
  The mood that \<open>mood_summary\<close> reports as most frequent is a key of the tally whose
  count no other count exceeds, and every mood before it in that order has a strictly
  smaller count: among tied moods the first wins.
  With the counts happy 2, neutral 2, sad 0 it reports happy.
\<close>

theorem top_mood_first_maximum:
  assumes "entries s \<noteq> []"
  shows "map fst (tally (entries s) init_counts) = VALID_MOODS
         \<and> (\<exists>t c. tops (stdout (snd (mood_summary rnd s))) = tops (stdout s) @ [t]
           \<and> (t, c) \<in> set (tally (entries s) init_counts)
           \<and> (\<forall>(m, c') \<in> set (tally (entries s) init_counts). c' \<le> c)
           \<and> (\<forall>(m, c') \<in> set (takeWhile (\<lambda>(m, c'). m \<noteq> t) (tally (entries s) init_counts)).
                 c' < c))"
proof -
  let ?h = "count_mood (lit ''happy'') (entries s)"
  let ?n = "count_mood (lit ''neutral'') (entries s)"
  let ?d = "count_mood (lit ''sad'') (entries s)"
  let ?t = "first_max ?h ?n ?d"
  let ?c = "if ?t = (lit ''happy'') then ?h else if ?t = (lit ''neutral'') then ?n else ?d"
  have 1: "tops (stdout (snd (mood_summary rnd s))) = tops (stdout s) @ [?t]"
    by (simp add: mood_summary_explicit [OF assms] tops_append)
  have 2: "(?t, ?c) \<in> set (tally (entries s) init_counts)"
    by (simp add: tally_init first_max_def)
  have 3: "\<forall>(m, c') \<in> set (tally (entries s) init_counts). c' \<le> ?c"
    by (simp add: tally_init first_max_def)
  have 4: "\<forall>(m, c') \<in> set (takeWhile (\<lambda>(m, c'). m \<noteq> ?t) (tally (entries s) init_counts)).
             c' < ?c"
    by (simp add: tally_init first_max_def)
  have 0: "map fst (tally (entries s) init_counts) = VALID_MOODS"
    by (simp add: tally_init VALID_MOODS_def)
  from 0 1 2 3 4 show ?thesis by blast
qed

theorem top_mood_first_maximum_witness:
  "tally (entries (example_state
       [example_entry ''neutral'' ''a'', example_entry ''happy'' ''b'',
        example_entry ''neutral'' ''c'', example_entry ''happy'' ''d''] [])) init_counts
     = [(lit ''happy'', 2), (lit ''neutral'', 2), (lit ''sad'', 0)]
   \<and> tops (stdout (snd (mood_summary id (example_state
       [example_entry ''neutral'' ''a'', example_entry ''happy'' ''b'',
        example_entry ''neutral'' ''c'', example_entry ''happy'' ''d''] [])))) = [lit ''happy'']"
proof -
  let ?s = "example_state
       [example_entry ''neutral'' ''a'', example_entry ''happy'' ''b'',
        example_entry ''neutral'' ''c'', example_entry ''happy'' ''d''] []"
  have ne: "entries ?s \<noteq> []"
    by (simp add: example_state_def)
  have cs: "tally (entries ?s) init_counts = [(lit ''happy'', 2), (lit ''neutral'', 2), (lit ''sad'', 0)]"
    by (simp add: example_state_def example_entry_def tally_init count_mood_def)
  from top_mood_first_maximum [OF ne, of id]
  obtain t c where t: "tops (stdout (snd (mood_summary id ?s))) = tops (stdout ?s) @ [t]"
    and "(t, c) \<in> set (tally (entries ?s) init_counts)"
    and "\<forall>(m, c') \<in> set (tally (entries ?s) init_counts). c' \<le> c"
    and "\<forall>(m, c') \<in> set (takeWhile (\<lambda>(m, c'). m \<noteq> t) (tally (entries ?s) init_counts)). c' < c"
    by blast
  then have "t = (lit ''happy'')"
    unfolding cs by (auto split: if_splits)
  with t cs show ?thesis
    by (simp add: example_state_def)
qed

lemma percent_bounds:
  assumes mono: "\<forall>x y. x \<le> y \<longrightarrow> rnd x \<le> rnd y"
    and keep: "rnd 0 = 0" "rnd 1 = 1" "rnd 100 = 100"
    and le: "c \<le> n" and pos: "0 < n"
  shows "0 \<le> rnd (rnd (real c / real n) * 100) \<and> rnd (rnd (real c / real n) * 100) \<le> 100"
proof -
  have q0: "0 \<le> real c / real n" by simp
  have q1: "real c / real n \<le> 1" using le pos by simp
  have r0: "0 \<le> rnd (real c / real n)" using mono q0 keep(1) by metis
  have r1: "rnd (real c / real n) \<le> 1" using mono q1 keep(2) by metis
  have p0: "0 \<le> rnd (real c / real n) * 100" using r0 by simp
  have p1: "rnd (real c / real n) * 100 \<le> 100" using r1 by simp
  show ?thesis using mono p0 p1 keep(1) keep(3) by metis
qed

text \<open>
  C8. For a rounding to the nearest float, which is monotone and keeps 0, 1 and 100:
  \<open>mood_summary\<close> raises nothing, so it never divides by zero; the percentage is 0 for
  a total of 0 and is the float product of the float quotient \<open>count / total\<close> and 100
  otherwise; and each bar printed shows the count of its mood with the percentage
  computed from that count and the number of entries, between 0 and 100.
\<close>

theorem percent_is_guarded_and_bounded:
  assumes mono: "\<forall>x y. x \<le> y \<longrightarrow> rnd x \<le> rnd y"
    and keep: "rnd 0 = 0" "rnd 1 = 1" "rnd 100 = 100"
  shows "fst (mood_summary rnd s) = Inr ()
         \<and> percent_of rnd c 0 = Inr 0
         \<and> (0 < n \<longrightarrow> percent_of rnd c n = Inr (rnd (rnd (real c / real n) * 100)))
         \<and> (\<exists>nb. bars (stdout (snd (mood_summary rnd s))) = bars (stdout s) @ nb
                \<and> map (\<lambda>(m, c, p). (m, c)) nb =
                    (if entries s = [] then [] else tally (entries s) init_counts)
                \<and> (\<forall>(m, c, p) \<in> set nb.
                      percent_of rnd c (length (entries s)) = Inr p \<and> 0 \<le> p \<and> p \<le> 100))"
proof (cases "entries s = []")
  case True
  then show ?thesis
    by (simp add: mood_summary_empty percent_of_total py_print_def bars_append)
next
  case False
  then have pos: "0 < length (entries s)" by simp
  note b = percent_bounds [OF mono keep count_mood_le pos]
  show ?thesis
    using pos b [of "lit ''happy''"] b [of "lit ''neutral''"] b [of "lit ''sad''"]
    by (simp add: mood_summary_explicit [OF False] percent_of_total bars_append tally_init)
qed

theorem percent_is_guarded_and_bounded_witness:
  "id (0 :: real) = 0 \<and> id (1 :: real) = 1 \<and> id (100 :: real) = 100
   \<and> fst (mood_summary id
        (example_state [example_entry ''happy'' ''First day'', example_entry ''sad'' ''Rough day'']
           [])) = Inr ()
   \<and> bars (stdout (snd (mood_summary id
        (example_state [example_entry ''happy'' ''First day'', example_entry ''sad'' ''Rough day'']
           [])))) = [(lit ''happy'', 1, 50), (lit ''neutral'', 0, 0), (lit ''sad'', 1, 50)]"
proof -
  let ?s = "example_state
              [example_entry ''happy'' ''First day'', example_entry ''sad'' ''Rough day''] []"
  have h1: "\<forall>x y :: real. x \<le> y \<longrightarrow> id x \<le> id y" by simp
  have h2: "id (0 :: real) = 0" "id (1 :: real) = 1" "id (100 :: real) = 100" by simp_all
  from percent_is_guarded_and_bounded [OF h1 h2, of ?s]
  have "fst (mood_summary id ?s) = Inr ()" by blast
  then show ?thesis
    by (simp add: mood_summary_explicit example_state_def example_entry_def count_mood_def)
qed

section \<open>Reading back what json.dump wrote\<close>

text \<open>The parser runs over a text piece by piece (\<open>foldl\<close> distributes over \<open>@\<close>),
  so each piece of the written text is followed on its own: an escape, an escaped code
  point, a string, a line break with its indentation, a member, an entry, the list.\<close>

lemma hexval_hexdigit: "d < 16 \<Longrightarrow> hexval (hexdigit d) = Some d"
proof -
  assume "d < 16"
  then have "d = 0 \<or> d = 1 \<or> d = 2 \<or> d = 3 \<or> d = 4 \<or> d = 5 \<or> d = 6 \<or> d = 7 \<or> d = 8
      \<or> d = 9 \<or> d = 10 \<or> d = 11 \<or> d = 12 \<or> d = 13 \<or> d = 14 \<or> d = 15"
    by arith
  then show ?thesis
    by (elim disjE) (simp_all add: hexdigit_def hexval_def lit_def)
qed

lemma hex_digits_value:
  "4096 * (n div 4096) + 256 * (n div 256 mod 16) + 16 * (n div 16 mod 16) + n mod 16 = (n :: nat)"
proof -
  have a: "n mod 256 = 16 * (n div 16 mod 16) + n mod 16"
    using mod_mult2_eq [of n 16 16] by simp
  have b: "n mod 4096 = 256 * (n div 256 mod 16) + n mod 256"
    using mod_mult2_eq [of n 256 16] by simp
  have c: "n = 4096 * (n div 4096) + n mod 4096"
    by simp
  from a b c show ?thesis by linarith
qed

text \<open>An escape \<open>\uXXXX\<close> that \<open>json.dump\<close> wrote is read as the number it was
  written for.\<close>

lemma read_esc_u:
  assumes "n < 65536"
  shows "foldl (step ip) (In_String k acc pending, st) (esc_u n) =
           (escaped_unit k acc pending n, st)"
proof -
  have d3: "hexval (hexdigit (n div 4096)) = Some (n div 4096)"
    using assms by (intro hexval_hexdigit) simp
  have d2: "hexval (hexdigit (n div 256 mod 16)) = Some (n div 256 mod 16)"
    by (intro hexval_hexdigit) simp
  have d1: "hexval (hexdigit (n div 16 mod 16)) = Some (n div 16 mod 16)"
    by (intro hexval_hexdigit) simp
  have d0: "hexval (hexdigit (n mod 16)) = Some (n mod 16)"
    by (intro hexval_hexdigit) simp
  show ?thesis
    by (simp add: esc_u_def d3 d2 d1 d0 Let_def hex_digits_value)
qed

text \<open>
  What \<open>json.dump\<close> wrote for one code point is read as that code point: at once,
  when it is not a high surrogate, and as a pending surrogate otherwise. A code point
  above 0xFFFF, written as two surrogates, is joined again. The one requirement is that
  a low surrogate does not follow a pending high one, which would join the two.
\<close>

lemma read_esc_char_bmp:
  assumes "c < 0x10000" and "pending = None \<or> \<not> is_low c"
  shows "foldl (step ip) (In_String k acc pending, st) (esc_char c) =
           (In_String k (if is_high c then emit pending acc else emit pending acc @ [c])
              (if is_high c then Some c else None), st)"
  using assms
  by (auto simp: esc_char_def read_esc_u escaped_unit_def emit_def unescape_def is_high_def
      is_low_def split: option.splits)

lemma read_esc_char_astral:
  assumes "0x10000 \<le> c" and "c < 0x110000"
  shows "foldl (step ip) (In_String k acc pending, st) (esc_char c) =
           (In_String k (emit pending acc @ [c]) None, st)"
proof -
  let ?h = "0xD800 + (c - 0x10000) div 1024"
  let ?l = "0xDC00 + (c - 0x10000) mod 1024"
  have hb: "?h < 65536" "is_high ?h" "\<not> is_low ?h"
    using assms by (simp_all add: is_high_def is_low_def)
  have lb: "?l < 65536" "is_low ?l"
    by (simp_all add: is_low_def)
  have first: "escaped_unit k acc pending ?h = In_String k (emit pending acc) (Some ?h)"
    using hb by (simp add: escaped_unit_def emit_def split: option.splits)
  have joined: "join_surrogates ?h ?l = c"
    using assms by (simp add: join_surrogates_def)
  have e: "esc_char c = esc_u ?h @ esc_u ?l"
    using assms by (simp add: esc_char_def)
  have s1: "foldl (step ip) (In_String k acc pending, st) (esc_u ?h) =
              (In_String k (emit pending acc) (Some ?h), st)"
    by (simp only: read_esc_u [OF hb(1)] first)
  have s2: "foldl (step ip) (In_String k (emit pending acc) (Some ?h), st) (esc_u ?l) =
              (In_String k (emit pending acc @ [c]) None, st)"
    using lb(2) by (simp add: read_esc_u [OF lb(1)] escaped_unit_def joined)
  show ?thesis
    by (simp only: e foldl_append s1 s2)
qed

lemma read_esc_char:
  assumes "c < 0x110000" and "pending = None \<or> \<not> is_low c"
  shows "foldl (step ip) (In_String k acc pending, st) (esc_char c) =
           (In_String k (if is_high c then emit pending acc else emit pending acc @ [c])
              (if is_high c then Some c else None), st)"
proof (cases "c < 0x10000")
  case True
  then show ?thesis using assms(2) by (rule read_esc_char_bmp)
next
  case False
  then have "\<not> is_high c" by (simp add: is_high_def)
  with False assms(1) show ?thesis
    by (simp add: read_esc_char_astral)
qed

text \<open>A string without a split surrogate pair is read as it was.\<close>

lemma read_string:
  assumes "is_str s" and "no_split_pair s"
    and "pending = None \<or> s = [] \<or> \<not> is_low (hd s)"
  shows "foldl (step ip) (In_String k acc pending, st) (concat (map esc_char s) @ [ch (CHR 0x22)]) =
           end_string k (emit pending acc @ s) st"
  using assms
proof (induction s arbitrary: acc pending)
  case Nil
  then show ?case by simp
next
  case (Cons c cs)
  have c: "c < 0x110000" and cs: "is_str cs"
    using Cons.prems(1) by (simp_all add: is_str_def)
  have first: "pending = None \<or> \<not> is_low c"
    using Cons.prems(3) by simp
  have rest: "no_split_pair cs"
    using Cons.prems(2) by (cases cs) simp_all
  have nxt: "is_high c \<Longrightarrow> cs = [] \<or> \<not> is_low (hd cs)"
    using Cons.prems(2) by (cases cs) simp_all
  show ?case
  proof (cases "is_high c")
    case True
    have "foldl (step ip) (In_String k (emit pending acc) (Some c), st)
            (concat (map esc_char cs) @ [ch (CHR 0x22)]) =
          end_string k (emit (Some c) (emit pending acc) @ cs) st"
      using cs rest nxt [OF True] by (intro Cons.IH) simp_all
    with True show ?thesis
      by (simp add: read_esc_char [OF c first] emit_def)
  next
    case False
    have "foldl (step ip) (In_String k (emit pending acc @ [c]) None, st)
            (concat (map esc_char cs) @ [ch (CHR 0x22)]) =
          end_string k (emit None (emit pending acc @ [c]) @ cs) st"
      using cs rest by (intro Cons.IH) simp_all
    with False show ?thesis
      by (simp add: read_esc_char [OF c first] emit_def)
  qed
qed

lemma read_value_string:
  assumes "savable s"
  shows "foldl (step ip) (Want_Value, st) (dump_str s) = deliver (JStr s) st"
  using assms read_string [of s None ip False "[]" st]
  by (simp add: dump_str_def start_value_def is_ws_def savable_def emit_def)

lemma read_key_string:
  assumes "ph = Want_Key \<or> ph = Want_Key_Or_Close" and "savable s"
  shows "foldl (step ip) (ph, In_Object kvs k # st) (dump_str s) =
           (Want_Colon, In_Object kvs s # st)"
  using assms read_string [of s None ip True "[]" "In_Object kvs k # st"]
  by (auto simp: dump_str_def is_ws_def savable_def emit_def)

text \<open>Blanks between tokens, the line breaks and the indentation among them, are
  skipped.\<close>

lemma step_blank:
  assumes "ph = Want_Value \<or> ph = Want_Value_Or_Close \<or> ph = Want_Key_Or_Close
           \<or> ph = Want_Key \<or> ph = Want_Colon \<or> ph = After_Value"
    and "is_ws c"
  shows "step ip (ph, st) c = (ph, st)"
  using assms by auto

lemma skip_blanks:
  assumes "ph = Want_Value \<or> ph = Want_Value_Or_Close \<or> ph = Want_Key_Or_Close
           \<or> ph = Want_Key \<or> ph = Want_Colon \<or> ph = After_Value"
    and "\<forall>c \<in> set bs. is_ws c"
  shows "foldl (step ip) (ph, st) bs = (ph, st)"
  using assms(2) by (induction bs) (simp_all add: step_blank [OF assms(1)])

lemma skip_newline_indent:
  assumes "ph = Want_Value \<or> ph = Want_Value_Or_Close \<or> ph = Want_Key_Or_Close
           \<or> ph = Want_Key \<or> ph = Want_Colon \<or> ph = After_Value"
  shows "foldl (step ip) (ph, st) (newline_indent k) = (ph, st)"
  by (rule skip_blanks [OF assms]) (auto simp: newline_indent_def is_ws_def)

text \<open>An entry, the entries after the first, and the whole list.\<close>

lemma savable_keys: "savable (lit ''date'')" "savable (lit ''mood'')" "savable (lit ''text'')"
  by (simp_all add: savable_def is_str_def lit_def is_high_def)

lemma keys_differ:
  "lit ''mood'' \<noteq> lit ''date''" "lit ''text'' \<noteq> lit ''date''" "lit ''text'' \<noteq> lit ''mood''"
  by (simp_all add: lit_def)

lemma read_entry:
  assumes "ph = Want_Value \<or> ph = Want_Value_Or_Close"
    and "Suc (length st) < max_depth ip"
    and "savable_entry e"
  shows "foldl (step ip) (ph, In_Array vs # st) (dump level (entry_json e)) =
           (After_Value, In_Array (vs @ [entry_json e]) # st)"
proof -
  have opened: "foldl (step ip) (ph, In_Array vs # st) (lit ''{'') =
                  (Want_Key_Or_Close, In_Object [] [] # In_Array vs # st)"
    using assms(1,2) by (auto simp: lit_def start_value_def open_container_def is_ws_def)
  have colon: "\<And>kvs k. foldl (step ip) (Want_Colon, In_Object kvs k # In_Array vs # st) (lit '': '')
                 = (Want_Value, In_Object kvs k # In_Array vs # st)"
    by (simp add: lit_def is_ws_def)
  have comma: "\<And>kvs k. foldl (step ip) (After_Value, In_Object kvs k # In_Array vs # st) (lit '','')
                 = (Want_Key, In_Object kvs k # In_Array vs # st)"
    by (simp add: lit_def is_ws_def)
  have closed: "\<And>kvs k. foldl (step ip) (After_Value, In_Object kvs k # In_Array vs # st) (lit ''}'')
                 = (After_Value, In_Array (vs @ [JObj kvs]) # st)"
    by (simp add: lit_def is_ws_def)
  have sv: "savable (e_date e)" "savable (e_mood e)" "savable (e_text e)"
    using assms(3) by (simp_all add: savable_entry_def)
  show ?thesis
    by (simp add: entry_json_def opened skip_newline_indent read_key_string
        read_value_string savable_keys sv colon comma closed keys_differ
        del: step.simps)
qed

lemma read_items:
  assumes "Suc (length st) < max_depth ip" and "\<forall>e \<in> set es. savable_entry e"
  shows "foldl (step ip) (After_Value, In_Array vs # st) (dump_items level (map entry_json es)) =
           (After_Value, In_Array (vs @ map entry_json es) # st)"
  using assms(2)
proof (induction es arbitrary: vs)
  case Nil
  then show ?case by simp
next
  case (Cons e es)
  have comma: "foldl (step ip) (After_Value, In_Array vs # st) (lit '','') =
                 (Want_Value, In_Array vs # st)"
    by (simp add: lit_def is_ws_def)
  show ?case
    using Cons.prems
    by (simp add: comma skip_newline_indent read_entry [OF _ assms(1)] Cons.IH
        del: step.simps)
qed

lemma loads_dumps_entries:
  assumes "2 \<le> max_depth ip" and "\<forall>e \<in> set es. savable_entry e"
  shows "json_loads ip (json_dumps (entries_json es)) = Inr (entries_json es)"
proof (cases es)
  case Nil
  then show ?thesis
    using assms(1)
    by (simp add: json_loads_def json_dumps_def entries_json_def start_value_def
        open_container_def is_ws_def lit_def)
next
  case (Cons e rest)
  have d: "Suc (length ([] :: frame list)) < max_depth ip"
    using assms(1) by simp
  have opened: "foldl (step ip) (Want_Value, []) (lit ''['') = (Want_Value_Or_Close, [In_Array []])"
    using assms(1) by (simp add: lit_def start_value_def open_container_def is_ws_def)
  have closed: "\<And>vs. foldl (step ip) (After_Value, [In_Array vs]) (lit '']'') = (Finished (JArr vs), [])"
    by (simp add: lit_def is_ws_def)
  have e: "savable_entry e" and rest: "\<forall>x \<in> set rest. savable_entry x"
    using assms(2) Cons by simp_all
  show ?thesis
    by (simp add: Cons json_loads_def json_dumps_def entries_json_def opened closed
        skip_newline_indent read_entry [OF _ d e] read_items [OF d rest]
        del: step.simps)
qed

lemma entries_of_entries_json: "entries_of (entries_json es) = Some es"
  by (induction es)
     (simp_all add: entries_of_def entries_json_def entry_of_def entry_json_def keys_differ)

text \<open>The text written holds ASCII characters only, whatever the entries hold: the file
  that \<open>save_entries\<close> leaves is text in every encoding that extends ASCII, which is why
  the model stores it as \<open>Content\<close>, and \<open>load_entries\<close> finds it decodable.\<close>

lemma hexdigit_ascii: "d < 16 \<Longrightarrow> hexdigit d < 128"
proof -
  assume "d < 16"
  then have "d = 0 \<or> d = 1 \<or> d = 2 \<or> d = 3 \<or> d = 4 \<or> d = 5 \<or> d = 6 \<or> d = 7 \<or> d = 8
      \<or> d = 9 \<or> d = 10 \<or> d = 11 \<or> d = 12 \<or> d = 13 \<or> d = 14 \<or> d = 15"
    by arith
  then show ?thesis
    by (elim disjE) (simp_all add: hexdigit_def lit_def)
qed

lemma esc_u_ascii: "n < 65536 \<Longrightarrow> list_all (\<lambda>x. x < 128) (esc_u n)"
proof -
  assume n: "n < 65536"
  have "hexdigit (n div 4096) < 128" using n by (intro hexdigit_ascii) simp
  moreover have "hexdigit (n div 256 mod 16) < 128" by (intro hexdigit_ascii) simp
  moreover have "hexdigit (n div 16 mod 16) < 128" by (intro hexdigit_ascii) simp
  moreover have "hexdigit (n mod 16) < 128" by (intro hexdigit_ascii) simp
  ultimately show ?thesis
    by (simp add: esc_u_def)
qed

lemma esc_char_ascii: "c < 0x110000 \<Longrightarrow> list_all (\<lambda>x. x < 128) (esc_char c)"
  by (simp add: esc_char_def esc_u_ascii)

lemma dump_str_ascii: "is_str s \<Longrightarrow> list_all (\<lambda>x. x < 128) (dump_str s)"
  by (induction s) (simp_all add: dump_str_def is_str_def esc_char_ascii)

lemma newline_indent_ascii: "list_all (\<lambda>x. x < 128) (newline_indent k)"
  by (simp add: newline_indent_def list_all_iff)

lemma punctuation_ascii:
  "list_all (\<lambda>x. x < 128) (lit ''['')" "list_all (\<lambda>x. x < 128) (lit '']'')"
  "list_all (\<lambda>x. x < 128) (lit ''{'')" "list_all (\<lambda>x. x < 128) (lit ''}'')"
  "list_all (\<lambda>x. x < 128) (lit '','')" "list_all (\<lambda>x. x < 128) (lit '': '')"
  "list_all (\<lambda>x. x < 128) (lit ''[]'')"
  by (simp_all add: lit_def)

lemma dump_entry_ascii:
  "savable_entry e \<Longrightarrow> list_all (\<lambda>x. x < 128) (dump level (entry_json e))"
  using savable_keys
  by (simp add: entry_json_def savable_entry_def savable_def dump_str_ascii
      newline_indent_ascii punctuation_ascii)

lemma dump_items_ascii:
  "\<forall>e \<in> set es. savable_entry e \<Longrightarrow>
   list_all (\<lambda>x. x < 128) (dump_items level (map entry_json es))"
  by (induction es) (simp_all add: dump_entry_ascii newline_indent_ascii punctuation_ascii)

lemma dumps_entries_ascii:
  "\<forall>e \<in> set es. savable_entry e \<Longrightarrow>
   list_all (\<lambda>x. x < 128) (json_dumps (entries_json es))"
  by (cases es)
     (simp_all add: json_dumps_def entries_json_def dump_entry_ascii dump_items_ascii
        newline_indent_ascii punctuation_ascii)

text \<open>
  Every Unicode text can be saved and read back: its code points are no surrogates, so
  it has no split pair. The strings that cannot are those that hold a high surrogate
  followed by a low one as two code points; \<open>json.dump\<close> writes the two escapes
  \<open>\ud83d\ude00\<close> for such a pair and \<open>json.load\<close> reads them as the one code point
  0x1F600.
\<close>

lemma is_text_savable: "is_text s \<Longrightarrow> savable s"
proof -
  assume t: "is_text s"
  then have "is_str s"
    by (simp add: is_text_def is_str_def list_all_iff)
  moreover from t have "no_split_pair s"
    by (induction s rule: no_split_pair.induct) (simp_all add: is_text_def)
  ultimately show ?thesis
    by (simp add: savable_def)
qed

lemma split_pair_comes_back_joined:
  "json_loads ip (json_dumps (JStr [0xD83D, 0xDE00])) = Inr (JStr [0x1F600])"
proof -
  have h: "hexval (hexdigit 13) = Some 13" "hexval (hexdigit 8) = Some 8"
    "hexval (hexdigit 3) = Some 3" "hexval (hexdigit 14) = Some 14"
    "hexval (hexdigit 0) = Some 0"
    by (simp_all add: hexval_hexdigit)
  show ?thesis
    by (simp add: json_loads_def json_dumps_def dump_str_def esc_char_def esc_u_def h
        start_value_def is_ws_def escaped_unit_def is_high_def is_low_def
        join_surrogates_def emit_def Let_def)
qed

section \<open>Exceptions that json.load raises and load_entries does not catch\<close>

text \<open>
  A text that opens one array more than the interpreter allows containers raises
  \<open>RecursionError\<close>, and an integer literal with one digit more than the interpreter
  converts raises \<open>ValueError\<close>. Neither is a \<open>json.JSONDecodeError\<close>.
\<close>

lemma nest_arrays:
  assumes "ph = Want_Value \<or> ph = Want_Value_Or_Close"
    and "length st + n \<le> max_depth ip"
  shows "\<exists>ph' st'. (ph' = Want_Value \<or> ph' = Want_Value_Or_Close)
           \<and> length st' = length st + n
           \<and> foldl (step ip) (ph, st) (replicate n 91) = (ph', st')"
  using assms
proof (induction n arbitrary: ph st)
  case 0
  then show ?case by simp
next
  case (Suc n)
  have first: "step ip (ph, st) 91 = (Want_Value_Or_Close, In_Array [] # st)"
    using Suc.prems by (auto simp: start_value_def open_container_def is_ws_def)
  have "\<exists>ph' st'. (ph' = Want_Value \<or> ph' = Want_Value_Or_Close)
           \<and> length st' = length (In_Array [] # st) + n
           \<and> foldl (step ip) (Want_Value_Or_Close, In_Array [] # st) (replicate n 91)
               = (ph', st')"
    using Suc.prems(2) by (intro Suc.IH) simp_all
  then show ?case
    using first by (simp del: step.simps)
qed

lemma deep_nesting_raises:
  "json_loads ip (replicate (Suc (max_depth ip)) (ch (CHR ''[''))) = Inl RecursionError"
proof -
  obtain ph' st' where ph': "ph' = Want_Value \<or> ph' = Want_Value_Or_Close"
    and len: "length st' = max_depth ip"
    and run: "foldl (step ip) (Want_Value, []) (replicate (max_depth ip) 91) = (ph', st')"
    using nest_arrays [of Want_Value "[]" "max_depth ip" ip] by auto
  have last: "step ip (ph', st') 91 = (Failed RecursionError, [])"
    using ph' len by (auto simp: start_value_def open_container_def is_ws_def)
  have split: "replicate (Suc (max_depth ip)) (91 :: nat) = replicate (max_depth ip) 91 @ [91]"
    by (simp add: replicate_append_same)
  have "foldl (step ip) (Want_Value, []) (replicate (Suc (max_depth ip)) 91) =
          (Failed RecursionError, [])"
    by (simp only: split foldl_append run foldl.simps last)
  then show ?thesis
    by (simp add: json_loads_def del: step.simps replicate.simps)
qed

lemma more_digits:
  "foldl (step ip) (In_Number N_Int lx lx, st) (replicate n 49) =
     (In_Number N_Int (lx @ replicate n 49) (lx @ replicate n 49), st)"
proof (induction n arbitrary: lx)
  case 0
  then show ?case by simp
next
  case (Suc n)
  have "step ip (In_Number N_Int lx lx, st) 49 =
          (In_Number N_Int (lx @ [49]) (lx @ [49]), st)"
    by (simp add: num_next_def is_digit_def num_complete_def)
  then show ?case
    using Suc.IH [of "lx @ [49]"]
    by (simp add: replicate_app_Cons_same del: step.simps)
qed

lemma long_integer_raises:
  assumes "0 < int_max_str_digits ip"
  shows "json_loads ip (replicate (Suc (int_max_str_digits ip)) (ch (CHR ''1''))) = Inl ValueError"
proof -
  let ?n = "int_max_str_digits ip"
  have first: "step ip (Want_Value, []) 49 = (In_Number N_Int [49] [49], [])"
    by (simp add: start_value_def is_ws_def is_digit_def)
  have run: "foldl (step ip) (Want_Value, []) (49 # replicate ?n 49) =
               (In_Number N_Int (49 # replicate ?n 49) (49 # replicate ?n 49), [])"
    using more_digits [of ip "[49]" "[]" ?n] first by (simp del: step.simps)
  have long: "int_too_long ip (49 # replicate ?n 49)"
    using assms by (simp add: int_too_long_def is_digit_def list_all_iff)
  have "finish ip (foldl (step ip) (Want_Value, []) (49 # replicate ?n 49)) = Inl ValueError"
    unfolding run using long by (simp add: end_number_def)
  then show ?thesis
    by (simp add: json_loads_def del: step.simps)
qed

section \<open>Saving and loading\<close>

text \<open>
  C1. When \<open>save_entries\<close> has saved the entries of a state (it returned \<open>True\<close>),
  \<open>load_entries\<close> in any state whose file is the file that was written, whatever that
  state holds in memory, returns the list of the dictionaries of these entries and
  changes nothing: the same entries in the same order, each with the same date, mood
  and text, and no other list of entries has these dictionaries. This holds for every
  list of entries whose three fields are strings without a split surrogate pair, so for
  every list of entries whose fields are Unicode texts (\<open>is_text_savable\<close>), the valid
  collections among them, and with an interpreter that allows the two levels of
  containers that a list of dictionaries has.
\<close>

theorem save_then_load_roundtrip:
  assumes "save_entries s = (True, s')"
    and "store t = store s'"
    and "2 \<le> max_depth (py t)"
    and "\<forall>e \<in> set (entries s). savable_entry e"
  shows "load_entries t = (Inr (entries_json (entries s)), t)
         \<and> entries_of (entries_json (entries s)) = Some (entries s)"
proof -
  have "store s' = Content (json_dumps (entries_json (entries s)))"
    using assms(1) by (auto simp: save_entries_def split: if_splits)
  then have "store t = Content (json_dumps (entries_json (entries s)))"
    using assms(2) by simp
  then show ?thesis
    by (simp add: load_entries_def loads_dumps_entries [OF assms(3,4)] entries_of_entries_json)
qed

theorem save_then_load_roundtrip_witness:
  "fst (save_entries (example_state
          [\<lparr>e_date = lit ''2024-05-01 09:30'', e_mood = lit ''happy'',
            e_text = [0x43, 0x61, 0x66, 0xE9, 0x20, 0x20AC, 0x35, 0x20, 0x1F600, 0x22, 0x5C, 0x0A]\<rparr>,
           example_entry ''sad'' ''Rough day''] [])) = True
   \<and> fst (load_entries ((example_state [] [])
         \<lparr>store := store (snd (save_entries (example_state
          [\<lparr>e_date = lit ''2024-05-01 09:30'', e_mood = lit ''happy'',
            e_text = [0x43, 0x61, 0x66, 0xE9, 0x20, 0x20AC, 0x35, 0x20, 0x1F600, 0x22, 0x5C, 0x0A]\<rparr>,
           example_entry ''sad'' ''Rough day''] [])))\<rparr>)) =
       Inr (entries_json
          [\<lparr>e_date = lit ''2024-05-01 09:30'', e_mood = lit ''happy'',
            e_text = [0x43, 0x61, 0x66, 0xE9, 0x20, 0x20AC, 0x35, 0x20, 0x1F600, 0x22, 0x5C, 0x0A]\<rparr>,
           example_entry ''sad'' ''Rough day''])"
proof -
  let ?es = "[\<lparr>e_date = lit ''2024-05-01 09:30'', e_mood = lit ''happy'',
            e_text = [0x43, 0x61, 0x66, 0xE9, 0x20, 0x20AC, 0x35, 0x20, 0x1F600, 0x22, 0x5C, 0x0A]\<rparr>,
           example_entry ''sad'' ''Rough day'']"
  let ?s = "example_state ?es []"
  let ?s' = "?s\<lparr>store := Content (json_dumps (entries_json (entries ?s)))\<rparr>"
  let ?t = "(example_state [] [])\<lparr>store := store ?s'\<rparr>"
  have h1: "save_entries ?s = (True, ?s')"
    by (simp add: save_entries_def example_state_def)
  have h2: "store ?t = store ?s'"
    by simp
  have h3: "2 \<le> max_depth (py ?t)"
    by (simp add: example_state_def example_python_def)
  have h4: "\<forall>e \<in> set (entries ?s). savable_entry e"
    by (simp add: example_state_def example_entry_def savable_entry_def savable_def is_str_def
        lit_def is_high_def)
  from save_then_load_roundtrip [OF h1 h2 h3 h4]
  have r: "load_entries ?t = (Inr (entries_json (entries ?s)), ?t)"
    by blast
  show ?thesis
    unfolding h1 using r by (simp add: example_state_def)
qed

text \<open>\<open>load_entries\<close> returns what is in the file as it is: an entry whose mood is not
  in the fixed set comes back with that mood.\<close>

lemma load_accepts_any_mood:
  assumes "2 \<le> max_depth (py s)"
  shows "fst (load_entries
           (s\<lparr>store := Content (json_dumps (entries_json [example_entry ''angry'' ''Stuck'']))\<rparr>)) =
         Inr (entries_json [example_entry ''angry'' ''Stuck''])"
proof -
  have "savable_entry (example_entry ''angry'' ''Stuck'')"
    by (simp add: example_entry_def savable_entry_def savable_def is_str_def lit_def is_high_def)
  then show ?thesis
    using assms by (simp add: load_entries_def loads_dumps_entries)
qed

text \<open>A file that is missing, that cannot be opened, or whose text is not JSON gives
  the empty list and no exception; the file is left as it is.\<close>

lemma load_entries_handled:
  "store s = Missing \<Longrightarrow> load_entries s = (Inr (JArr []), s)"
  "store s = Unreadable \<Longrightarrow> load_entries s = (Inr (JArr []), py_print Say_ErrorReading s)"
  "store s = Content t \<Longrightarrow> json_loads (py s) t = Inl JSONDecodeError \<Longrightarrow>
     load_entries s = (Inr (JArr []), py_print Say_Corrupted s)"
  by (simp_all add: load_entries_def)

text \<open>
  C4. The claim is that \<open>load_entries\<close> raises for no state of the file. It does raise
  for one: when the bytes of the file are not text in the encoding of the locale,
  \<open>json.load\<close> raises \<open>UnicodeDecodeError\<close> from \<open>f.read()\<close>, which is neither a
  \<open>json.JSONDecodeError\<close> nor an \<open>OSError\<close>, so neither handler catches it.
\<close>

theorem load_entries_undecodable_raises:
  "load_entries (s\<lparr>store := Undecodable\<rparr>) = (Inl UnicodeDecodeError, s\<lparr>store := Undecodable\<rparr>)"
  by (simp add: load_entries_def)

text \<open>The same holds for a file nested too deep and for a file with too long an
  integer literal: \<open>load_entries\<close> lets the exception of \<open>json.load\<close> through.\<close>

lemma load_entries_deep_nesting_raises:
  "store s = Content (replicate (Suc (max_depth (py s))) (ch (CHR ''[''))) \<Longrightarrow>
   load_entries s = (Inl RecursionError, s)"
  using deep_nesting_raises [of "py s"] by (simp add: load_entries_def del: replicate.simps)

lemma load_entries_long_integer_raises:
  "0 < int_max_str_digits (py s) \<Longrightarrow>
   store s = Content (replicate (Suc (int_max_str_digits (py s))) (ch (CHR ''1''))) \<Longrightarrow>
   load_entries s = (Inl ValueError, s)"
  using long_integer_raises [of "py s"] by (simp add: load_entries_def del: replicate.simps)

end
